theory Spec2Isabelle
  imports Main
begin

section \<open>cps::future: data model\<close>

text \<open>
  A shallow embedding of \<^verbatim>\<open>include/cps/future.h\<close>. Futures live in a store and are
  named by handles (the \<^verbatim>\<open>shared_ptr\<close>s of the source); the closures that the source
  stores in \<^verbatim>\<open>tasks_\<close> are a datatype, one constructor per lambda body of the header, and a
  dispatcher gives each its body. The model is sequential: the mutex only brackets the
  critical sections, which are atomic here.
\<close>

type_synonym fid = nat
type_synonym cid = nat
type_synonym val = int

text \<open>\<^verbatim>\<open>enum class state { pending, done, failed, cancelled }\<close>\<close>

datatype state = Pending | Done | Failed | Cancelled

text \<open>
  The exception objects of the source: \<^verbatim>\<open>std::runtime_error\<close>, its subclass
  \<^verbatim>\<open>fail_exception\<close>, and a \<^verbatim>\<open>std::exception\<close> that is not a runtime error
  (\<^verbatim>\<open>std::logic_error\<close> and its subclasses).
\<close>

datatype std_exception = Runtime_error string | Fail_exception string | Logic_error string

fun what :: "std_exception \<Rightarrow> string" where
  "what (Runtime_error m) = m"
| "what (Fail_exception m) = m"
| "what (Logic_error m) = m"

text \<open>Whether \<^verbatim>\<open>catch(const std::runtime_error &)\<close> matches the object.\<close>

fun is_runtime_error :: "std_exception \<Rightarrow> bool" where
  "is_runtime_error (Runtime_error m) = True"
| "is_runtime_error (Fail_exception m) = True"
| "is_runtime_error (Logic_error m) = False"

text \<open>
  \<^verbatim>\<open>class future_exception\<close>: the members \<^verbatim>\<open>ex_\<close>, \<^verbatim>\<open>component_\<close>, \<^verbatim>\<open>reason_\<close>.
  A null \<^verbatim>\<open>shared_ptr\<close> is \<open>None\<close>.
\<close>

record future_exception =
  fe_ex :: "std_exception option"
  fe_component :: string
  fe_reason :: string

text \<open>What a \<^verbatim>\<open>throw\<close> can carry past the library: both kinds have a handler in \<^verbatim>\<open>then\<close>.\<close>

datatype thrown = Thrown_std std_exception | Thrown_failure future_exception

text \<open>Ways a run ends without returning or throwing.\<close>

datatype abort = Out_of_fuel | Null_dereference | Uninitialised_read | Assertion_failed

text \<open>
  The argument a user-supplied callback is called with. A user callback is opaque code;
  the model records each of its invocations, with the argument, in a log.
\<close>

datatype arg =
    Arg_future fid state
  | Arg_value val
  | Arg_failure future_exception
  | Arg_reason string
  | Arg_none

text \<open>
  User-supplied callbacks are opaque code. The model keeps two kinds: one that returns,
  whose invocation is recorded in the log under the callback's number, and one that throws.
\<close>

datatype user_code = Records nat | Throws thrown

text \<open>
  The callables handed to \<^verbatim>\<open>on_done\<close> (taking the value), to \<^verbatim>\<open>on_fail\<close> (taking
  the reason) and to \<^verbatim>\<open>on_cancel\<close> (taking nothing): a user's callback, or one of the
  lambdas that \<^verbatim>\<open>then\<close> builds, with the handle it captures.
\<close>

datatype value_code = Value_user user_code | Then_done fid

datatype reason_code = Reason_user user_code | Then_fail fid

datatype unit_code = Unit_user user_code | Then_cancelled fid | Cancel_inner fid

text \<open>
  The values of \<^verbatim>\<open>std::function<void(future<T> &)>\<close> that reach \<^verbatim>\<open>call_when_ready\<close>:
  a user's \<^verbatim>\<open>on_ready\<close> handler, the filtering wrappers of \<^verbatim>\<open>on_done\<close>, \<^verbatim>\<open>on_fail\<close>
  (two overloads) and \<^verbatim>\<open>on_cancel\<close> (two overloads), the lambda of \<^verbatim>\<open>then\<close> with its
  captures \<^verbatim>\<open>f, ok, err\<close>, and the two lambdas of the aggregation combinators:
  \<open>Needs_code f\<close> is the body that \<^verbatim>\<open>needs_all(first)\<close>, \<^verbatim>\<open>needs_any(vector)\<close> and
  \<^verbatim>\<open>needs_any(first, rest...)\<close> each write out, \<open>Needs_counting_code f pending\<close> the one
  of \<^verbatim>\<open>needs_all(vector)\<close> and \<^verbatim>\<open>needs_all(first, rest...)\<close>; their other captures only
  keep the inputs alive. The callbacks \<^verbatim>\<open>ok\<close> and \<^verbatim>\<open>err\<close> return the handle of a
  future or throw; a future they would create is taken to exist in the store already.
\<close>

datatype cont =
    Ready_user user_code
  | On_done value_code
  | On_fail_failure user_code
  | On_fail_reason reason_code
  | On_cancel_future user_code
  | On_cancel unit_code
  | Then_code fid "val \<Rightarrow> thrown + fid" "(string \<Rightarrow> thrown + fid) option"
  | Needs_code fid
  | Needs_counting_code fid cid

text \<open>The data members of \<^verbatim>\<open>future<T>\<close>; \<^verbatim>\<open>value_\<close> is uninitialised until \<^verbatim>\<open>done\<close>.\<close>

record future =
  state_m :: state
  tasks_m :: "cont list"
  ex_m :: "future_exception option"
  label_m :: string
  created_m :: nat
  resolved_m :: nat
  value_m :: "val option"

text \<open>
  The store: the futures by handle, the shared \<^verbatim>\<open>std::atomic<int>\<close> counters of the
  combinators by handle, the clock, and the log of user-callback invocations.
\<close>

record world =
  heap :: "fid \<Rightarrow> future"
  next_fid :: nat
  counters :: "cid \<Rightarrow> int"
  next_cid :: nat
  clock :: nat
  log :: "(nat \<times> arg) list"

datatype 'a outcome = Normal 'a world | Raised thrown world | Abort abort

fun bind :: "'a outcome \<Rightarrow> ('a \<Rightarrow> world \<Rightarrow> 'b outcome) \<Rightarrow> 'b outcome" where
  "bind (Normal x w) k = k x w"
| "bind (Raised e w) k = Raised e w"
| "bind (Abort a) k = Abort a"

text \<open>\<^verbatim>\<open>try { ... } catch\<close>: the handler sees what was thrown and the store as it is then.\<close>

fun try_catch :: "'a outcome \<Rightarrow> (thrown \<Rightarrow> world \<Rightarrow> 'a outcome) \<Rightarrow> 'a outcome" where
  "try_catch (Normal x w) h = Normal x w"
| "try_catch (Raised e w) h = h e w"
| "try_catch (Abort a) h = Abort a"

text \<open>The dispatcher: what invoking a stored continuation on a future does.\<close>

type_synonym runner = "cont \<Rightarrow> fid \<Rightarrow> world \<Rightarrow> unit outcome"

section \<open>The failure record\<close>

text \<open>
  The constructor's initialiser list is \<^verbatim>\<open>ex_(), component_(component), reason_(e->what())\<close>.
\<close>

definition future_exception_ctor :: "std_exception \<Rightarrow> string \<Rightarrow> future_exception" where
  "future_exception_ctor e component =
     \<lparr>fe_ex = None, fe_component = component, fe_reason = what e\<rparr>"

text \<open>\<^verbatim>\<open>ex()\<close> returns \<^verbatim>\<open>*ex_\<close>.\<close>

definition ex :: "future_exception \<Rightarrow> abort + std_exception" where
  "ex fe = (case fe_ex fe of None \<Rightarrow> Inl Null_dereference | Some e \<Rightarrow> Inr e)"

definition reason :: "future_exception \<Rightarrow> string" where
  "reason fe = fe_reason fe"

section \<open>The future core\<close>

text \<open>\<^verbatim>\<open>std::chrono::high_resolution_clock::now()\<close>, a counter that each reading advances.\<close>

definition now :: "world \<Rightarrow> nat \<times> world" where
  "now w = (clock w, w\<lparr>clock := Suc (clock w)\<rparr>)"

text \<open>The constructor \<^verbatim>\<open>future(label)\<close>, placed at a fresh handle by \<^verbatim>\<open>create_shared\<close>.\<close>

definition create_shared :: "string \<Rightarrow> world \<Rightarrow> fid \<times> world" where
  "create_shared label w =
     (let (t, w1) = now w; f = next_fid w1
      in (f, w1\<lparr>heap := (heap w1)(f :=
                 \<lparr>state_m = Pending, tasks_m = [], ex_m = None, label_m = label,
                  created_m = t, resolved_m = 0, value_m = None\<rparr>),
               next_fid := Suc f\<rparr>))"

definition unlabelled :: string where
  "unlabelled = ''unlabelled future''"

definition is_ready :: "future \<Rightarrow> bool" where
  "is_ready f = (state_m f \<noteq> Pending)"

definition is_done :: "future \<Rightarrow> bool" where
  "is_done f = (state_m f = Done)"

definition is_failed :: "future \<Rightarrow> bool" where
  "is_failed f = (state_m f = Failed)"

definition is_cancelled :: "future \<Rightarrow> bool" where
  "is_cancelled f = (state_m f = Cancelled)"

definition is_pending :: "future \<Rightarrow> bool" where
  "is_pending f = (state_m f = Pending)"

text \<open>\<^verbatim>\<open>value()\<close>, \<^verbatim>\<open>failure()\<close> and \<^verbatim>\<open>failure_reason()\<close> of the future at a handle.\<close>

definition future_value :: "fid \<Rightarrow> world \<Rightarrow> val outcome" where
  "future_value fid w =
     (if state_m (heap w fid) \<noteq> Done
      then Raised (Thrown_std (Runtime_error ''future is not complete'')) w
      else (case value_m (heap w fid) of
              None \<Rightarrow> Abort Uninitialised_read
            | Some v \<Rightarrow> Normal v w))"

definition future_failure :: "fid \<Rightarrow> world \<Rightarrow> future_exception outcome" where
  "future_failure fid w =
     (if state_m (heap w fid) \<noteq> Failed
      then Raised (Thrown_std (Runtime_error ''future is not failed'')) w
      else (case ex_m (heap w fid) of
              None \<Rightarrow> Abort Null_dereference
            | Some fe \<Rightarrow> Normal fe w))"

definition future_failure_reason :: "fid \<Rightarrow> world \<Rightarrow> string outcome" where
  "future_failure_reason fid w =
     (if state_m (heap w fid) \<noteq> Failed
      then Raised (Thrown_std (Runtime_error ''future is not failed'')) w
      else (case ex_m (heap w fid) of
              None \<Rightarrow> Abort Null_dereference
            | Some fe \<Rightarrow> Normal (reason fe) w))"

text \<open>The loop \<^verbatim>\<open>for(auto &v : pending) v(*this)\<close>: a throw leaves it.\<close>

fun run_pending :: "runner \<Rightarrow> cont list \<Rightarrow> fid \<Rightarrow> world \<Rightarrow> unit outcome" where
  "run_pending run [] fid w = Normal () w"
| "run_pending run (v # vs) fid w = bind (run v fid w) (\<lambda>_. run_pending run vs fid)"

text \<open>
  \<^verbatim>\<open>apply_state(code, s)\<close>. In the critical section: \<^verbatim>\<open>code(*this)\<close>, the queue moved
  out and cleared, \<^verbatim>\<open>resolved_\<close> stamped, \<^verbatim>\<open>state_\<close> set. Then the moved-out batch runs.
\<close>

definition critical_section :: "(future \<Rightarrow> future) \<Rightarrow> state \<Rightarrow> fid \<Rightarrow> world \<Rightarrow> cont list \<times> world" where
  "critical_section code s fid w =
     (let fu = code (heap w fid);
          pending = tasks_m fu;
          (t, w1) = now w
      in (pending,
          w1\<lparr>heap := (heap w1)(fid := fu\<lparr>tasks_m := [], resolved_m := t, state_m := s\<rparr>)\<rparr>))"

definition apply_state :: "runner \<Rightarrow> (future \<Rightarrow> future) \<Rightarrow> state \<Rightarrow> fid \<Rightarrow> world \<Rightarrow> fid outcome" where
  "apply_state run code s fid w =
     (if s = Pending then Abort Assertion_failed
      else (let (pending, w2) = critical_section code s fid w
            in bind (run_pending run pending fid w2) (\<lambda>_. Normal fid)))"

text \<open>\<^verbatim>\<open>done(v)\<close>, \<^verbatim>\<open>fail(ex, component)\<close>, \<^verbatim>\<open>cancel()\<close>.\<close>

definition future_done :: "runner \<Rightarrow> val \<Rightarrow> fid \<Rightarrow> world \<Rightarrow> fid outcome" where
  "future_done run v fid w = apply_state run (\<lambda>f. f\<lparr>value_m := Some v\<rparr>) Done fid w"

definition future_fail :: "runner \<Rightarrow> string \<Rightarrow> string \<Rightarrow> fid \<Rightarrow> world \<Rightarrow> fid outcome" where
  "future_fail run msg component fid w =
     (let fe = Fail_exception msg
      in apply_state run (\<lambda>f. f\<lparr>ex_m := Some (future_exception_ctor fe component)\<rparr>) Failed fid w)"

definition unknown :: string where
  "unknown = ''unknown''"

definition future_cancel :: "runner \<Rightarrow> fid \<Rightarrow> world \<Rightarrow> fid outcome" where
  "future_cancel run fid w = apply_state run (\<lambda>f. f) Cancelled fid w"

text \<open>\<^verbatim>\<open>call_when_ready(code)\<close>: queue while pending, otherwise call at once.\<close>

definition call_when_ready :: "runner \<Rightarrow> cont \<Rightarrow> fid \<Rightarrow> world \<Rightarrow> fid outcome" where
  "call_when_ready run code fid w =
     (let ready = (state_m (heap w fid) \<noteq> Pending);
          w1 = (if \<not> ready
                then w\<lparr>heap := (heap w)(fid := (heap w fid)\<lparr>tasks_m := tasks_m (heap w fid) @ [code]\<rparr>)\<rparr>
                else w)
      in if ready then bind (run code fid w1) (\<lambda>_. Normal fid) else Normal fid w1)"

text \<open>The registration methods, each a wrapper handed to \<^verbatim>\<open>call_when_ready\<close>.\<close>

definition on_ready :: "runner \<Rightarrow> cont \<Rightarrow> fid \<Rightarrow> world \<Rightarrow> fid outcome" where
  "on_ready run code fid w = call_when_ready run code fid w"

definition on_done :: "runner \<Rightarrow> value_code \<Rightarrow> fid \<Rightarrow> world \<Rightarrow> fid outcome" where
  "on_done run code fid w = call_when_ready run (On_done code) fid w"

definition on_fail_failure :: "runner \<Rightarrow> user_code \<Rightarrow> fid \<Rightarrow> world \<Rightarrow> fid outcome" where
  "on_fail_failure run code fid w = call_when_ready run (On_fail_failure code) fid w"

definition on_fail :: "runner \<Rightarrow> reason_code \<Rightarrow> fid \<Rightarrow> world \<Rightarrow> fid outcome" where
  "on_fail run code fid w = call_when_ready run (On_fail_reason code) fid w"

definition on_cancel_future :: "runner \<Rightarrow> user_code \<Rightarrow> fid \<Rightarrow> world \<Rightarrow> fid outcome" where
  "on_cancel_future run code fid w = call_when_ready run (On_cancel_future code) fid w"

definition on_cancel :: "runner \<Rightarrow> unit_code \<Rightarrow> fid \<Rightarrow> world \<Rightarrow> fid outcome" where
  "on_cancel run code fid w = call_when_ready run (On_cancel code) fid w"

section \<open>The bodies of the stored continuations\<close>

definition run_user :: "user_code \<Rightarrow> arg \<Rightarrow> world \<Rightarrow> unit outcome" where
  "run_user u a w =
     (case u of
        Records n \<Rightarrow> Normal () (w\<lparr>log := log w @ [(n, a)]\<rparr>)
      | Throws e \<Rightarrow> Raised e w)"

definition discard :: "'a \<Rightarrow> world \<Rightarrow> unit outcome" where
  "discard x w = Normal () w"

text \<open>
  \<^verbatim>\<open>[f](inner_type v) { f->done(v); }\<close>, \<^verbatim>\<open>[f](const std::string &msg) { f->fail(msg); }\<close>,
  \<^verbatim>\<open>[f]() { f->fail("cancelled"); }\<close> and \<^verbatim>\<open>[inner]() { inner->cancel(); }\<close>.
\<close>

definition run_value_code :: "runner \<Rightarrow> value_code \<Rightarrow> val \<Rightarrow> world \<Rightarrow> unit outcome" where
  "run_value_code run code v w =
     (case code of
        Value_user u \<Rightarrow> run_user u (Arg_value v) w
      | Then_done f \<Rightarrow> bind (future_done run v f w) discard)"

definition run_reason_code :: "runner \<Rightarrow> reason_code \<Rightarrow> string \<Rightarrow> world \<Rightarrow> unit outcome" where
  "run_reason_code run code msg w =
     (case code of
        Reason_user u \<Rightarrow> run_user u (Arg_reason msg) w
      | Then_fail f \<Rightarrow> bind (future_fail run msg unknown f w) discard)"

definition run_unit_code :: "runner \<Rightarrow> unit_code \<Rightarrow> world \<Rightarrow> unit outcome" where
  "run_unit_code run code w =
     (case code of
        Unit_user u \<Rightarrow> run_user u Arg_none w
      | Then_cancelled f \<Rightarrow> bind (future_fail run ''cancelled'' unknown f w) discard
      | Cancel_inner inner \<Rightarrow> bind (future_cancel run inner w) discard)"

text \<open>
  The part the two branches of \<^verbatim>\<open>then\<close> share: on the future \<open>r\<close> that the callback
  returned, \<^verbatim>\<open>->on_done(...)->on_fail(...)->on_cancel(...)\<close>, then
  \<^verbatim>\<open>f->on_cancel([inner]() { inner->cancel(); })\<close>. A callback that throws leaves at once.
\<close>

definition propagate :: "runner \<Rightarrow> fid \<Rightarrow> thrown + fid \<Rightarrow> world \<Rightarrow> unit outcome" where
  "propagate run f r w =
     (case r of
        Inl e \<Rightarrow> Raised e w
      | Inr g \<Rightarrow>
          bind (bind (bind (bind (on_done run (Then_done f) g w)
                                 (on_fail run (Then_fail f)))
                           (on_cancel run (Then_cancelled f)))
                     (\<lambda>inner. on_cancel run (Cancel_inner inner) f))
               discard)"

text \<open>The \<^verbatim>\<open>try\<close> block of the lambda of \<^verbatim>\<open>then\<close>, run on the source future \<open>me\<close>.\<close>

definition then_try :: "runner \<Rightarrow> fid \<Rightarrow> (val \<Rightarrow> thrown + fid) \<Rightarrow> (string \<Rightarrow> thrown + fid) option
    \<Rightarrow> fid \<Rightarrow> world \<Rightarrow> unit outcome" where
  "then_try run f ok err me w =
     (if is_ready (heap w f) then Normal () w
      else if is_done (heap w me) then
        bind (future_value me w) (\<lambda>v. propagate run f (ok v))
      else if is_failed (heap w me) then
        (case err of
           Some e \<Rightarrow> bind (future_failure_reason me w) (\<lambda>msg. propagate run f (e msg))
         | None \<Rightarrow>
             bind (future_failure_reason me w)
               (\<lambda>msg w1. bind (future_fail run msg ''chained future'' f w1) discard))
      else if is_cancelled (heap w me) then
        bind (future_fail run ''cancelled'' unknown f w) discard
      else Normal () w)"

text \<open>
  The two handlers, in the source's order: \<^verbatim>\<open>catch(const future_exception &ex)\<close> and
  \<^verbatim>\<open>catch(const std::runtime_error &ex)\<close>. Anything else is not caught.
\<close>

definition then_catch :: "runner \<Rightarrow> fid \<Rightarrow> thrown \<Rightarrow> world \<Rightarrow> unit outcome" where
  "then_catch run f e w =
     (case e of
        Thrown_failure fe \<Rightarrow> bind (future_fail run (reason fe) unknown f w) discard
      | Thrown_std x \<Rightarrow>
          if is_runtime_error x then bind (future_fail run (what x) unknown f w) discard
          else Raised e w)"

definition then_code :: "runner \<Rightarrow> fid \<Rightarrow> (val \<Rightarrow> thrown + fid) \<Rightarrow> (string \<Rightarrow> thrown + fid) option
    \<Rightarrow> fid \<Rightarrow> world \<Rightarrow> unit outcome" where
  "then_code run f ok err me w = try_catch (then_try run f ok err me w) (then_catch run f)"

text \<open>
  The lambda shared, word for word, by \<^verbatim>\<open>needs_all(first)\<close>, \<^verbatim>\<open>needs_any(vector)\<close> and
  \<^verbatim>\<open>needs_any(first, rest...)\<close>, run on the input \<open>inp\<close>.
\<close>

definition needs_code :: "runner \<Rightarrow> fid \<Rightarrow> fid \<Rightarrow> world \<Rightarrow> unit outcome" where
  "needs_code run f inp w =
     (if is_ready (heap w f) then Normal () w
      else if \<not> is_done (heap w inp) then bind (future_fail run ''error'' unknown f w) discard
      else bind (future_done run 0 f w) discard)"

text \<open>
  The lambda of \<^verbatim>\<open>needs_all(vector)\<close> and \<^verbatim>\<open>needs_all(first, rest...)\<close>, with the shared
  counter: \<^verbatim>\<open>if(!--(*pending)) f->done(0)\<close>.
\<close>

definition needs_counting_code :: "runner \<Rightarrow> fid \<Rightarrow> cid \<Rightarrow> fid \<Rightarrow> world \<Rightarrow> unit outcome" where
  "needs_counting_code run f pending inp w =
     (if is_ready (heap w f) then Normal () w
      else if \<not> is_done (heap w inp) then bind (future_fail run ''error'' unknown f w) discard
      else (let n = counters w pending - 1;
                w1 = w\<lparr>counters := (counters w)(pending := n)\<rparr>
            in if n = 0 then bind (future_done run 0 f w1) discard else Normal () w1))"

text \<open>What calling a stored continuation on the future \<open>me\<close> does.\<close>

definition invoke :: "runner \<Rightarrow> cont \<Rightarrow> fid \<Rightarrow> world \<Rightarrow> unit outcome" where
  "invoke run c me w =
     (case c of
        Ready_user u \<Rightarrow> run_user u (Arg_future me (state_m (heap w me))) w
      | On_done code \<Rightarrow>
          if is_done (heap w me) then bind (future_value me w) (run_value_code run code)
          else Normal () w
      | On_fail_failure u \<Rightarrow>
          if is_failed (heap w me) then bind (future_failure me w) (\<lambda>fe. run_user u (Arg_failure fe))
          else Normal () w
      | On_fail_reason code \<Rightarrow>
          if is_failed (heap w me) then bind (future_failure_reason me w) (run_reason_code run code)
          else Normal () w
      | On_cancel_future u \<Rightarrow>
          if is_cancelled (heap w me) then run_user u (Arg_future me (state_m (heap w me))) w
          else Normal () w
      | On_cancel code \<Rightarrow>
          if is_cancelled (heap w me) then run_unit_code run code w
          else Normal () w
      | Then_code f ok err \<Rightarrow> then_code run f ok err me w
      | Needs_code f \<Rightarrow> needs_code run f me w
      | Needs_counting_code f pending \<Rightarrow> needs_counting_code run f pending me w)"

text \<open>
  The dispatcher closes the recursion. A continuation may resolve another future, whose
  continuations then run inside it; the nesting depth is bounded by the fuel.
\<close>

fun run_cont :: "nat \<Rightarrow> cont \<Rightarrow> fid \<Rightarrow> world \<Rightarrow> unit outcome" where
  "run_cont 0 c me w = Abort Out_of_fuel"
| "run_cont (Suc n) c me w = invoke (run_cont n) c me w"

section \<open>Chaining\<close>

text \<open>\<^verbatim>\<open>then(ok, err)\<close> on the source future \<open>me\<close>; \<open>None\<close> is the default \<^verbatim>\<open>nullptr\<close>.\<close>

definition future_then :: "runner \<Rightarrow> (val \<Rightarrow> thrown + fid) \<Rightarrow> (string \<Rightarrow> thrown + fid) option
    \<Rightarrow> fid \<Rightarrow> world \<Rightarrow> fid outcome" where
  "future_then run ok err me w =
     (let (f, w1) = create_shared unlabelled w
      in bind (call_when_ready run (Then_code f ok err) me w1) (\<lambda>_. Normal f))"

section \<open>Aggregation\<close>

text \<open>\<^verbatim>\<open>std::make_shared<std::atomic<int>>(n)\<close>\<close>

definition new_counter :: "int \<Rightarrow> world \<Rightarrow> cid \<times> world" where
  "new_counter n w =
     (let c = next_cid w
      in (c, w\<lparr>counters := (counters w)(c := n), next_cid := Suc c\<rparr>))"

text \<open>The loop \<^verbatim>\<open>for(auto &it : first) it->on_ready(code)\<close>.\<close>

fun on_ready_each :: "runner \<Rightarrow> cont \<Rightarrow> fid list \<Rightarrow> world \<Rightarrow> unit outcome" where
  "on_ready_each run code [] w = Normal () w"
| "on_ready_each run code (it # its) w =
     bind (on_ready run code it w) (\<lambda>_. on_ready_each run code its)"

definition needs_all_none :: "runner \<Rightarrow> world \<Rightarrow> fid outcome" where
  "needs_all_none run w =
     (let (f, w1) = create_shared unlabelled w
      in bind (future_done run 0 f w1) (\<lambda>_. Normal f))"

definition needs_all_single :: "runner \<Rightarrow> fid \<Rightarrow> world \<Rightarrow> fid outcome" where
  "needs_all_single run first w =
     (let (f, w1) = create_shared unlabelled w;
          code = Needs_code f
      in bind (on_ready run code first w1) (\<lambda>_. Normal f))"

definition needs_all_vector :: "runner \<Rightarrow> fid list \<Rightarrow> world \<Rightarrow> fid outcome" where
  "needs_all_vector run first w =
     (let (f, w1) = create_shared unlabelled w;
          (pending, w2) = new_counter (int (length first)) w1;
          code = Needs_counting_code f pending
      in bind (on_ready_each run code first w2) (\<lambda>_. Normal f))"

text \<open>
  \<^verbatim>\<open>needs_all(first, rest...)\<close>. Overload resolution picks the degenerate case for no
  argument and the base case for one; with more, the remainder is built first.
\<close>

fun needs_all :: "runner \<Rightarrow> fid list \<Rightarrow> world \<Rightarrow> fid outcome" where
  "needs_all run [] w = needs_all_none run w"
| "needs_all run [first] w = needs_all_single run first w"
| "needs_all run (first # rest) w =
     bind (needs_all run rest w)
       (\<lambda>remainder w0.
          let (f, w1) = create_shared unlabelled w0;
              (pending, w2) = new_counter 2 w1;
              code = Needs_counting_code f pending
          in bind (on_ready run code first w2)
               (\<lambda>_ w3. bind (on_ready run code remainder w3) (\<lambda>_. Normal f)))"

definition needs_any_none :: "runner \<Rightarrow> world \<Rightarrow> fid outcome" where
  "needs_any_none run w =
     (let (f, w1) = create_shared unlabelled w
      in bind (future_fail run ''no elements'' unknown f w1) (\<lambda>_. Normal f))"

definition needs_any_single :: "runner \<Rightarrow> fid \<Rightarrow> world \<Rightarrow> fid outcome" where
  "needs_any_single run first w = needs_all_single run first w"

definition needs_any_vector :: "runner \<Rightarrow> fid list \<Rightarrow> world \<Rightarrow> fid outcome" where
  "needs_any_vector run first w =
     (let (f, w1) = create_shared unlabelled w;
          code = Needs_code f
      in bind (on_ready_each run code first w1) (\<lambda>_. Normal f))"

text \<open>\<^verbatim>\<open>needs_any(first, rest...)\<close>, with \<^verbatim>\<open>auto remainder = needs_all(rest...)\<close>.\<close>

fun needs_any :: "runner \<Rightarrow> fid list \<Rightarrow> world \<Rightarrow> fid outcome" where
  "needs_any run [] w = needs_any_none run w"
| "needs_any run [first] w = needs_any_single run first w"
| "needs_any run (first # rest) w =
     bind (needs_all run rest w)
       (\<lambda>remainder w0.
          let (f, w1) = create_shared unlabelled w0;
              code = Needs_code f
          in bind (on_ready run code first w1)
               (\<lambda>_ w3. bind (on_ready run code remainder w3) (\<lambda>_. Normal f)))"

section \<open>Scenarios and observations\<close>

text \<open>The store before any future exists.\<close>

definition empty_future :: future where
  "empty_future =
     \<lparr>state_m = Pending, tasks_m = [], ex_m = None, label_m = [],
      created_m = 0, resolved_m = 0, value_m = None\<rparr>"

definition initial_world :: world where
  "initial_world =
     \<lparr>heap = (\<lambda>_. empty_future), next_fid = 0, counters = (\<lambda>_. 0), next_cid = 0,
      clock = 0, log = []\<rparr>"

text \<open>The store with two futures, handles 0 and 1, and with three.\<close>

definition two_futures :: world where
  "two_futures = snd (create_shared unlabelled (snd (create_shared unlabelled initial_world)))"

definition three_futures :: world where
  "three_futures = snd (create_shared unlabelled two_futures)"

text \<open>What an outcome leaves of a future.\<close>

fun world_of :: "'a outcome \<Rightarrow> world" where
  "world_of (Normal x w) = w"
| "world_of (Raised e w) = w"
| "world_of (Abort a) = initial_world"

fun state_after :: "'a outcome \<Rightarrow> fid \<Rightarrow> state option" where
  "state_after (Normal x w) f = Some (state_m (heap w f))"
| "state_after (Raised e w) f = Some (state_m (heap w f))"
| "state_after (Abort a) f = None"

definition failure_reason_of :: "future \<Rightarrow> string option" where
  "failure_reason_of f = map_option reason (ex_m f)"

text \<open>The three resolving calls a producer can make, as data.\<close>

datatype resolution = Resolve_done val | Resolve_fail string string | Resolve_cancel

fun resolve :: "runner \<Rightarrow> resolution \<Rightarrow> fid \<Rightarrow> world \<Rightarrow> fid outcome" where
  "resolve run (Resolve_done v) fid w = future_done run v fid w"
| "resolve run (Resolve_fail msg component) fid w = future_fail run msg component fid w"
| "resolve run Resolve_cancel fid w = future_cancel run fid w"

fun target :: "resolution \<Rightarrow> state" where
  "target (Resolve_done v) = Done"
| "target (Resolve_fail msg component) = Failed"
| "target Resolve_cancel = Cancelled"

text \<open>
  Invariants of the store: a terminal future has an empty queue; a done future has a
  value and a failed one a failure record; a future is terminal.
\<close>

definition queue_drained :: "world \<Rightarrow> bool" where
  "queue_drained w = (\<forall>i. state_m (heap w i) \<noteq> Pending \<longrightarrow> tasks_m (heap w i) = [])"

definition stored :: "world \<Rightarrow> bool" where
  "stored w = (\<forall>i. (state_m (heap w i) = Done \<longrightarrow> value_m (heap w i) \<noteq> None) \<and>
                    (state_m (heap w i) = Failed \<longrightarrow> ex_m (heap w i) \<noteq> None))"

definition terminal :: "fid \<Rightarrow> world \<Rightarrow> bool" where
  "terminal fid w = (state_m (heap w fid) \<noteq> Pending)"


text \<open>
  A property of the store that an outcome keeps; a dispatcher that keeps it; and a
  property that every elementary update of the library keeps: the three critical
  sections, queueing on a pending future, the counter and the log.
\<close>

fun holds :: "(world \<Rightarrow> bool) \<Rightarrow> 'a outcome \<Rightarrow> bool" where
  "holds P (Normal x w) = P w"
| "holds P (Raised e w) = P w"
| "holds P (Abort a) = True"

definition preserved :: "(world \<Rightarrow> bool) \<Rightarrow> runner \<Rightarrow> bool" where
  "preserved P run = (\<forall>c me w. P w \<longrightarrow> holds P (run c me w))"

definition stable :: "(world \<Rightarrow> bool) \<Rightarrow> bool" where
  "stable P =
     (\<forall>w fid. P w \<longrightarrow>
        (\<forall>v. P (snd (critical_section (\<lambda>f. f\<lparr>value_m := Some v\<rparr>) Done fid w))) \<and>
        (\<forall>fe. P (snd (critical_section (\<lambda>f. f\<lparr>ex_m := Some fe\<rparr>) Failed fid w))) \<and>
        P (snd (critical_section (\<lambda>f. f) Cancelled fid w)) \<and>
        (\<forall>c. state_m (heap w fid) = Pending \<longrightarrow>
           P (w\<lparr>heap := (heap w)(fid := (heap w fid)\<lparr>tasks_m := tasks_m (heap w fid) @ [c]\<rparr>)\<rparr>)) \<and>
        (\<forall>c n. P (w\<lparr>counters := (counters w)(c := n)\<rparr>)) \<and>
        (\<forall>l. P (w\<lparr>log := l\<rparr>)))"


text \<open>Future 0 resolved done with 7, then future 1 failed.\<close>

definition done_then_failed :: world where
  "done_then_failed =
     world_of (bind (future_done (run_cont 0) 7 0 two_futures)
                 (\<lambda>_. future_fail (run_cont 0) ''boom'' ''disk'' 1))"



text \<open>A sequence of resolving calls, each on the future it names.\<close>

fun resolve_each :: "runner \<Rightarrow> (fid \<times> resolution) list \<Rightarrow> world \<Rightarrow> unit outcome" where
  "resolve_each run [] w = Normal () w"
| "resolve_each run ((i, r) # evs) w = bind (resolve run r i w) (\<lambda>_. resolve_each run evs)"



text \<open>An existing pending future on which nothing waits.\<close>

definition fresh_input :: "world \<Rightarrow> fid \<Rightarrow> bool" where
  "fresh_input w i = (i < next_fid w \<and> state_m (heap w i) = Pending \<and> tasks_m (heap w i) = [])"

text \<open>What an outcome throws to its caller.\<close>

fun thrown_of :: "'a outcome \<Rightarrow> thrown option" where
  "thrown_of (Normal x w) = None"
| "thrown_of (Raised e w) = Some e"
| "thrown_of (Abort a) = None"

text \<open>
  The six registration methods, for a user's handler: \<^verbatim>\<open>on_ready\<close>, \<^verbatim>\<open>on_done\<close>, the two
  overloads of \<^verbatim>\<open>on_fail\<close> (taking the failure record, taking the reason) and the two of
  \<^verbatim>\<open>on_cancel\<close> (taking the future, taking nothing); and the wrapper each hands to
  \<^verbatim>\<open>call_when_ready\<close>.
\<close>

datatype registration =
  Reg_ready | Reg_done | Reg_fail_record | Reg_fail_reason | Reg_cancel_future | Reg_cancel

fun register :: "runner \<Rightarrow> registration \<Rightarrow> user_code \<Rightarrow> fid \<Rightarrow> world \<Rightarrow> fid outcome" where
  "register run Reg_ready u fid w = on_ready run (Ready_user u) fid w"
| "register run Reg_done u fid w = on_done run (Value_user u) fid w"
| "register run Reg_fail_record u fid w = on_fail_failure run u fid w"
| "register run Reg_fail_reason u fid w = on_fail run (Reason_user u) fid w"
| "register run Reg_cancel_future u fid w = on_cancel_future run u fid w"
| "register run Reg_cancel u fid w = on_cancel run (Unit_user u) fid w"

fun wrapper :: "registration \<Rightarrow> user_code \<Rightarrow> cont" where
  "wrapper Reg_ready u = Ready_user u"
| "wrapper Reg_done u = On_done (Value_user u)"
| "wrapper Reg_fail_record u = On_fail_failure u"
| "wrapper Reg_fail_reason u = On_fail_reason (Reason_user u)"
| "wrapper Reg_cancel_future u = On_cancel_future u"
| "wrapper Reg_cancel u = On_cancel (Unit_user u)"

text \<open>
  What a handler is called with on a resolved future, in the spec's words: \<^verbatim>\<open>on_ready\<close>
  (any terminal state), \<^verbatim>\<open>on_done\<close> (value, only if done), \<^verbatim>\<open>on_fail\<close> (failure record
  or reason string, only if failed), \<^verbatim>\<open>on_cancel\<close> (only if cancelled). \<open>None\<close>: the handler
  is not called.
\<close>

fun delivered :: "registration \<Rightarrow> fid \<Rightarrow> future \<Rightarrow> arg option" where
  "delivered Reg_ready fid fu = Some (Arg_future fid (state_m fu))"
| "delivered Reg_done fid fu = (if state_m fu = Done then map_option Arg_value (value_m fu) else None)"
| "delivered Reg_fail_record fid fu = (if state_m fu = Failed then map_option Arg_failure (ex_m fu) else None)"
| "delivered Reg_fail_reason fid fu =
     (if state_m fu = Failed then map_option (\<lambda>fe. Arg_reason (reason fe)) (ex_m fu) else None)"
| "delivered Reg_cancel_future fid fu = (if state_m fu = Cancelled then Some (Arg_future fid Cancelled) else None)"
| "delivered Reg_cancel fid fu = (if state_m fu = Cancelled then Some Arg_none else None)"

text \<open>The store once the handler numbered \<open>k\<close> has been called with \<open>a\<close>, or not called.\<close>

definition called :: "nat \<Rightarrow> arg option \<Rightarrow> world \<Rightarrow> world" where
  "called k a w = (case a of None \<Rightarrow> w | Some x \<Rightarrow> w\<lparr>log := log w @ [(k, x)]\<rparr>)"

text \<open>
  Two futures, with a user's handler waiting: one that throws, on future 0; one that
  returns, on future 1.
\<close>

definition boom :: thrown where
  "boom = Thrown_std (Runtime_error ''boom'')"

definition thrower_waiting :: world where
  "thrower_waiting = world_of (on_ready (run_cont 0) (Ready_user (Throws boom)) 0 two_futures)"

definition listener_waiting :: world where
  "listener_waiting = world_of (on_ready (run_cont 0) (Ready_user (Records 1)) 1 two_futures)"


text \<open>
  The store when the critical section of \<^verbatim>\<open>apply_state\<close> has run for the resolving call
  \<open>r\<close> on the future \<open>i\<close>, before the batch taken from its queue is run.
\<close>

definition settle :: "resolution \<Rightarrow> fid \<Rightarrow> world \<Rightarrow> world" where
  "settle r i w =
     w\<lparr>clock := Suc (clock w),
       heap := (heap w)(i := (case r of
           Resolve_done v \<Rightarrow> (heap w i)\<lparr>value_m := Some v\<rparr>
         | Resolve_fail msg component \<Rightarrow>
             (heap w i)\<lparr>ex_m := Some (future_exception_ctor (Fail_exception msg) component)\<rparr>
         | Resolve_cancel \<Rightarrow> heap w i)
         \<lparr>tasks_m := [], resolved_m := clock w, state_m := target r\<rparr>)\<rparr>"



section \<open>Invariants of the dispatcher\<close>

lemma holds_bind:
  assumes "holds P m" and "\<And>x w. P w \<Longrightarrow> holds P (k x w)"
  shows "holds P (bind m k)"
  using assms by (cases m) simp_all

lemma holds_try_catch:
  assumes "holds P m" and "\<And>e w. P w \<Longrightarrow> holds P (h e w)"
  shows "holds P (try_catch m h)"
  using assms by (cases m) simp_all

lemma holds_discard: "P w \<Longrightarrow> holds P (discard x w)"
  by (simp add: discard_def)

lemma holds_run_pending:
  assumes "preserved P run"
  shows "P w \<Longrightarrow> holds P (run_pending run cs fid w)"
proof (induction cs arbitrary: w)
  case Nil
  then show ?case by simp
next
  case (Cons c cs)
  have "holds P (run c fid w)"
    using assms Cons.prems by (simp add: preserved_def)
  then show ?case
    using Cons.IH by (simp add: holds_bind)
qed

lemma holds_apply_state:
  assumes "preserved P run" and "P (snd (critical_section code s fid w))"
  shows "holds P (apply_state run code s fid w)"
proof (cases "s = Pending")
  case True
  then show ?thesis by (simp add: apply_state_def)
next
  case False
  obtain pending w2 where cs: "critical_section code s fid w = (pending, w2)"
    by (cases "critical_section code s fid w")
  with assms(2) have "P w2" by simp
  then have "holds P (run_pending run pending fid w2)"
    using assms(1) by (rule holds_run_pending[rotated])
  then show ?thesis
    using False cs by (simp add: apply_state_def holds_bind)
qed

lemma holds_future_done:
  "stable P \<Longrightarrow> preserved P run \<Longrightarrow> P w \<Longrightarrow> holds P (future_done run v fid w)"
  unfolding future_done_def by (rule holds_apply_state) (simp_all add: stable_def)

lemma holds_future_fail:
  "stable P \<Longrightarrow> preserved P run \<Longrightarrow> P w \<Longrightarrow> holds P (future_fail run msg component fid w)"
  unfolding future_fail_def Let_def by (rule holds_apply_state) (simp_all add: stable_def)

lemma holds_future_cancel:
  "stable P \<Longrightarrow> preserved P run \<Longrightarrow> P w \<Longrightarrow> holds P (future_cancel run fid w)"
  unfolding future_cancel_def by (rule holds_apply_state) (simp_all add: stable_def)

lemma holds_call_when_ready:
  assumes "stable P" "preserved P run" "P w"
  shows "holds P (call_when_ready run c fid w)"
proof (cases "state_m (heap w fid) = Pending")
  case True
  then show ?thesis using assms by (simp add: call_when_ready_def stable_def)
next
  case False
  have "holds P (run c fid w)" using assms by (simp add: preserved_def)
  then show ?thesis using False by (simp add: call_when_ready_def holds_bind)
qed

lemma holds_run_user: "stable P \<Longrightarrow> P w \<Longrightarrow> holds P (run_user u a w)"
  by (cases u) (simp_all add: run_user_def stable_def)

lemma holds_future_value: "P w \<Longrightarrow> holds P (future_value fid w)"
  by (simp add: future_value_def split: option.splits)

lemma holds_future_failure: "P w \<Longrightarrow> holds P (future_failure fid w)"
  by (simp add: future_failure_def split: option.splits)

lemma holds_future_failure_reason: "P w \<Longrightarrow> holds P (future_failure_reason fid w)"
  by (simp add: future_failure_reason_def split: option.splits)

lemma holds_run_value_code:
  "stable P \<Longrightarrow> preserved P run \<Longrightarrow> P w \<Longrightarrow> holds P (run_value_code run code v w)"
  by (cases code) (simp_all add: run_value_code_def holds_run_user holds_bind holds_future_done holds_discard)

lemma holds_run_reason_code:
  "stable P \<Longrightarrow> preserved P run \<Longrightarrow> P w \<Longrightarrow> holds P (run_reason_code run code msg w)"
  by (cases code) (simp_all add: run_reason_code_def holds_run_user holds_bind holds_future_fail holds_discard)

lemma holds_run_unit_code:
  "stable P \<Longrightarrow> preserved P run \<Longrightarrow> P w \<Longrightarrow> holds P (run_unit_code run code w)"
  by (cases code)
     (simp_all add: run_unit_code_def holds_run_user holds_bind holds_future_fail holds_future_cancel holds_discard)

lemma holds_on_done:
  "stable P \<Longrightarrow> preserved P run \<Longrightarrow> P w \<Longrightarrow> holds P (on_done run code fid w)"
  by (simp add: on_done_def holds_call_when_ready)

lemma holds_on_fail:
  "stable P \<Longrightarrow> preserved P run \<Longrightarrow> P w \<Longrightarrow> holds P (on_fail run code fid w)"
  by (simp add: on_fail_def holds_call_when_ready)

lemma holds_on_cancel:
  "stable P \<Longrightarrow> preserved P run \<Longrightarrow> P w \<Longrightarrow> holds P (on_cancel run code fid w)"
  by (simp add: on_cancel_def holds_call_when_ready)

lemma holds_propagate:
  assumes "stable P" "preserved P run" "P w"
  shows "holds P (propagate run f r w)"
proof (cases r)
  case (Inl e)
  then show ?thesis using assms by (simp add: propagate_def)
next
  case (Inr g)
  show ?thesis
    using Inr assms
    by (simp add: propagate_def holds_bind holds_on_done holds_on_fail holds_on_cancel holds_discard)
qed

lemma holds_then_try:
  assumes "stable P" "preserved P run" "P w"
  shows "holds P (then_try run f ok err me w)"
  using assms
  by (auto simp: then_try_def intro!: holds_bind holds_future_value holds_propagate
        holds_future_failure_reason holds_future_fail holds_discard split: option.splits)

lemma holds_then_catch:
  assumes "stable P" "preserved P run" "P w"
  shows "holds P (then_catch run f e w)"
  using assms
  by (auto simp: then_catch_def intro!: holds_bind holds_future_fail holds_discard split: thrown.splits)

lemma holds_then_code:
  assumes "stable P" "preserved P run" "P w"
  shows "holds P (then_code run f ok err me w)"
  unfolding then_code_def
  using assms by (intro holds_try_catch holds_then_try holds_then_catch)

lemma holds_needs_code:
  assumes "stable P" "preserved P run" "P w"
  shows "holds P (needs_code run f inp w)"
  using assms
  by (auto simp: needs_code_def intro!: holds_bind holds_future_fail holds_future_done holds_discard)

lemma holds_needs_counting_code:
  assumes "stable P" "preserved P run" "P w"
  shows "holds P (needs_counting_code run f pending inp w)"
proof -
  have "P (w\<lparr>counters := (counters w)(pending := counters w pending - 1)\<rparr>)"
    using assms(1,3) by (simp add: stable_def)
  then show ?thesis
    using assms
    by (auto simp: needs_counting_code_def Let_def
          intro!: holds_bind holds_future_fail holds_future_done holds_discard)
qed

lemma holds_invoke:
  assumes "stable P" "preserved P run" "P w"
  shows "holds P (invoke run c me w)"
proof (cases c)
  case (Then_code f ok err)
  then show ?thesis using assms by (simp add: invoke_def holds_then_code)
next
  case (Needs_code f)
  then show ?thesis using assms by (simp add: invoke_def holds_needs_code)
next
  case (Needs_counting_code f p)
  then show ?thesis using assms by (simp add: invoke_def holds_needs_counting_code)
next
  case (Ready_user u)
  then show ?thesis using assms by (simp add: invoke_def holds_run_user)
next
  case (On_done code)
  then show ?thesis using assms
    by (auto simp: invoke_def intro!: holds_bind holds_future_value holds_run_value_code)
next
  case (On_fail_failure u)
  then show ?thesis using assms
    by (auto simp: invoke_def intro!: holds_bind holds_future_failure holds_run_user)
next
  case (On_fail_reason code)
  then show ?thesis using assms
    by (auto simp: invoke_def intro!: holds_bind holds_future_failure_reason holds_run_reason_code)
next
  case (On_cancel_future u)
  then show ?thesis using assms by (simp add: invoke_def holds_run_user)
next
  case (On_cancel code)
  then show ?thesis using assms by (simp add: invoke_def holds_run_unit_code)
qed

lemma preserved_run_cont:
  assumes "stable P"
  shows "preserved P (run_cont n)"
proof (induction n)
  case 0
  then show ?case by (simp add: preserved_def)
next
  case (Suc n)
  then show ?case
    unfolding preserved_def using assms by (auto intro: holds_invoke simp: preserved_def)
qed

lemma critical_section_simp:
  "critical_section code s fid w =
     (tasks_m (code (heap w fid)),
      w\<lparr>clock := Suc (clock w),
        heap := (heap w)(fid := (code (heap w fid))\<lparr>tasks_m := [], resolved_m := clock w, state_m := s\<rparr>)\<rparr>)"
  by (simp add: critical_section_def now_def Let_def)

lemma stable_queue_drained: "stable queue_drained"
  by (auto simp: stable_def queue_drained_def critical_section_simp)

lemma stable_stored: "stable stored"
  by (auto simp: stable_def stored_def critical_section_simp)

lemma stable_terminal: "stable (terminal i)"
  by (auto simp: stable_def terminal_def critical_section_simp)

lemma holds_resolve:
  "stable P \<Longrightarrow> preserved P run \<Longrightarrow> P w \<Longrightarrow> holds P (resolve run r fid w)"
  by (cases r) (simp_all add: holds_future_done holds_future_fail holds_future_cancel)

lemma apply_state_no_tasks:
  assumes "s \<noteq> Pending" "tasks_m (code (heap w fid)) = []"
  shows "apply_state run code s fid w =
     Normal fid (w\<lparr>clock := Suc (clock w),
        heap := (heap w)(fid := (code (heap w fid))\<lparr>tasks_m := [], resolved_m := clock w, state_m := s\<rparr>)\<rparr>)"
  using assms by (simp add: apply_state_def critical_section_simp)

lemma run_pending_append:
  "run_pending run (cs @ ds) fid w = bind (run_pending run cs fid w) (\<lambda>_. run_pending run ds fid)"
proof (induction cs arbitrary: w)
  case Nil
  then show ?case by simp
next
  case (Cons c cs)
  then show ?case by (cases "run c fid w") simp_all
qed

lemma bind_assoc: "bind (bind m k) h = bind m (\<lambda>x w. bind (k x w) h)"
  by (cases m) simp_all

lemma bind_cong_holds:
  assumes "holds P m" and "\<And>x w. P w \<Longrightarrow> k x w = h x w"
  shows "bind m k = bind m h"
  using assms by (cases m) simp_all

lemma register_resolve_commute:
  assumes pend: "state_m (heap w fid) = Pending"
    and s: "s \<noteq> Pending"
    and code: "\<And>f. tasks_m (code f) = tasks_m f"
      "\<And>f c. code (f\<lparr>tasks_m := tasks_m f @ [c]\<rparr>)\<lparr>tasks_m := []\<rparr> = (code f)\<lparr>tasks_m := []\<rparr>"
  shows "bind (call_when_ready (run_cont n) c fid w) (\<lambda>_. apply_state (run_cont n) code s fid)
       = bind (apply_state (run_cont n) code s fid w) (\<lambda>_. call_when_ready (run_cont n) c fid)"
proof -
  let ?run = "run_cont n"
  let ?w2 = "w\<lparr>clock := Suc (clock w),
        heap := (heap w)(fid := (code (heap w fid))\<lparr>tasks_m := [], resolved_m := clock w, state_m := s\<rparr>)\<rparr>"
  let ?qs = "tasks_m (heap w fid)"
  have t: "terminal fid ?w2" using s by (simp add: terminal_def)
  have h: "holds (terminal fid) (run_pending ?run ?qs fid ?w2)"
    by (rule holds_run_pending[OF preserved_run_cont[OF stable_terminal] t])
  have lhs: "bind (call_when_ready ?run c fid w) (\<lambda>_. apply_state ?run code s fid)
      = bind (run_pending ?run (?qs @ [c]) fid ?w2) (\<lambda>_. Normal fid)"
    using pend s code
    by (simp add: call_when_ready_def apply_state_def critical_section_simp)
  have rhs: "bind (apply_state ?run code s fid w) (\<lambda>_. call_when_ready ?run c fid)
      = bind (run_pending ?run ?qs fid ?w2) (\<lambda>_. call_when_ready ?run c fid)"
    using s code by (simp add: apply_state_def critical_section_simp bind_assoc)
  have "bind (run_pending ?run ?qs fid ?w2) (\<lambda>_. call_when_ready ?run c fid)
      = bind (run_pending ?run ?qs fid ?w2) (\<lambda>_ w3. bind (run_pending ?run [c] fid w3) (\<lambda>_. Normal fid))"
  proof (rule bind_cong_holds[OF h])
    fix x w3 assume "terminal fid w3"
    then show "call_when_ready ?run c fid w3 = bind (run_pending ?run [c] fid w3) (\<lambda>_. Normal fid)"
      by (cases "run_cont n c fid w3") (simp_all add: call_when_ready_def terminal_def)
  qed
  then show ?thesis
    unfolding lhs rhs by (simp only: run_pending_append bind_assoc)
qed

section \<open>Concrete stores\<close>

lemma create_shared_simp:
  "create_shared label w =
     (next_fid w,
      w\<lparr>clock := Suc (clock w),
        heap := (heap w)(next_fid w :=
                 \<lparr>state_m = Pending, tasks_m = [], ex_m = None, label_m = label,
                  created_m = clock w, resolved_m = 0, value_m = None\<rparr>),
        next_fid := Suc (next_fid w)\<rparr>)"
  by (simp add: create_shared_def now_def Let_def)

lemmas scenario_defs = two_futures_def three_futures_def initial_world_def create_shared_simp

lemma done_then_failed_simp:
  "done_then_failed =
     \<lparr>heap = (\<lambda>_. empty_future)
        (0 := \<lparr>state_m = Done, tasks_m = [], ex_m = None, label_m = unlabelled,
              created_m = 0, resolved_m = 2, value_m = Some 7\<rparr>,
         1 := \<lparr>state_m = Failed, tasks_m = [],
              ex_m = Some \<lparr>fe_ex = None, fe_component = ''disk'', fe_reason = ''boom''\<rparr>,
              label_m = unlabelled, created_m = 1, resolved_m = 3, value_m = None\<rparr>),
      next_fid = 2, counters = (\<lambda>_. 0), next_cid = 0, clock = 4, log = []\<rparr>"
  by (simp add: done_then_failed_def scenario_defs future_done_def future_fail_def
      apply_state_no_tasks future_exception_ctor_def numeral_2_eq_2 numeral_3_eq_3)

lemma stored_done_then_failed: "stored done_then_failed"
  by (simp add: stored_def done_then_failed_simp empty_future_def)

lemma resolve_keeps:
  "stable P \<Longrightarrow> P w \<Longrightarrow> holds P (resolve (run_cont n) r i w)"
  by (rule holds_resolve[OF _ preserved_run_cont])

lemmas exec_defs =
  call_when_ready_def on_done_def on_fail_def on_cancel_def on_ready_def
  future_done_def future_fail_def future_cancel_def apply_state_def critical_section_simp
  invoke_def then_code_def then_try_def then_catch_def propagate_def
  run_value_code_def run_reason_code_def run_unit_code_def run_user_def
  needs_code_def needs_counting_code_def
  future_value_def future_failure_def future_failure_reason_def
  is_ready_def is_done_def is_failed_def is_cancelled_def is_pending_def
  discard_def Let_def

lemma listener_waiting_simp:
  "listener_waiting =
     \<lparr>heap = (\<lambda>_. empty_future)
        (0 := \<lparr>state_m = Pending, tasks_m = [], ex_m = None, label_m = unlabelled,
              created_m = 0, resolved_m = 0, value_m = None\<rparr>,
         1 := \<lparr>state_m = Pending, tasks_m = [Ready_user (Records 1)], ex_m = None,
              label_m = unlabelled, created_m = 1, resolved_m = 0, value_m = None\<rparr>),
      next_fid = 2, counters = (\<lambda>_. 0), next_cid = 0, clock = 2, log = []\<rparr>"
  by (simp add: listener_waiting_def scenario_defs on_ready_def call_when_ready_def numeral_2_eq_2)

lemma thrower_waiting_simp:
  "thrower_waiting =
     \<lparr>heap = (\<lambda>_. empty_future)
        (0 := \<lparr>state_m = Pending, tasks_m = [Ready_user (Throws boom)], ex_m = None,
              label_m = unlabelled, created_m = 0, resolved_m = 0, value_m = None\<rparr>,
         1 := \<lparr>state_m = Pending, tasks_m = [], ex_m = None, label_m = unlabelled,
              created_m = 1, resolved_m = 0, value_m = None\<rparr>),
      next_fid = 2, counters = (\<lambda>_. 0), next_cid = 0, clock = 2, log = []\<rparr>"
  by (simp add: thrower_waiting_def scenario_defs on_ready_def call_when_ready_def numeral_2_eq_2
      fun_upd_twist)


lemma settle_other [simp]: "x \<noteq> i \<Longrightarrow> heap (settle r i w) x = heap w x"
  by (simp add: settle_def)

lemma settle_counters [simp]: "counters (settle r i w) = counters w"
  by (simp add: settle_def)

lemma settle_self [simp]:
  "state_m (heap (settle r i w) i) = target r"
  "tasks_m (heap (settle r i w) i) = []"
  by (simp_all add: settle_def)

lemma settle_misc [simp]:
  "next_fid (settle r i w) = next_fid w" "log (settle r i w) = log w"
  by (simp_all add: settle_def)

lemma stored_log [simp]: "stored (w\<lparr>log := l\<rparr>) = stored w"
  by (simp add: stored_def)




lemma wrapper_invoked:
  assumes "stored w"
  shows "run_cont (Suc n) (wrapper m (Records k)) i w =
     Normal () (called k (delivered m i (heap w i)) w)"
proof -
  from assms have st:
    "state_m (heap w i) = Done \<Longrightarrow> \<exists>v. value_m (heap w i) = Some v"
    "state_m (heap w i) = Failed \<Longrightarrow> \<exists>fe. ex_m (heap w i) = Some fe"
    by (auto simp: stored_def)
  show ?thesis
  proof (cases "state_m (heap w i)")
    case Pending
    then show ?thesis
      by (cases m)
         (simp_all add: invoke_def run_user_def is_done_def is_failed_def is_cancelled_def called_def)
  next
    case Done
    with st obtain v where "value_m (heap w i) = Some v" by blast
    with Done show ?thesis
      by (cases m)
         (simp_all add: invoke_def run_user_def is_done_def is_failed_def is_cancelled_def called_def
            future_value_def run_value_code_def)
  next
    case Failed
    with st obtain fe where "ex_m (heap w i) = Some fe" by blast
    with Failed show ?thesis
      by (cases m)
         (simp_all add: invoke_def run_user_def is_done_def is_failed_def is_cancelled_def called_def
            future_failure_def future_failure_reason_def run_reason_code_def)
  next
    case Cancelled
    then show ?thesis
      by (cases m)
         (simp_all add: invoke_def run_user_def is_done_def is_failed_def is_cancelled_def called_def
            run_unit_code_def)
  qed
qed



section \<open>The failure record keeps the message and drops the error\<close>

text \<open>
  C9. A failure record built by \<^verbatim>\<open>fail(reason, component)\<close> has the message of the
  error it was built from as its reason, and a null exception pointer: \<^verbatim>\<open>ex()\<close>
  dereferences null instead of yielding the error. This holds of the constructor for
  every error, and of the record that \<^verbatim>\<open>fail\<close> stores in the future.
\<close>

theorem failure_record_drops_error:
  "reason (future_exception_ctor e component) = what e \<and>
   fe_ex (future_exception_ctor e component) = None \<and>
   ex (future_exception_ctor e component) = Inl Null_dereference \<and>
   (tasks_m (heap w fid) = [] \<longrightarrow>
     (\<exists>w' fe. future_fail run msg component fid w = Normal fid w' \<and>
        ex_m (heap w' fid) = Some fe \<and> reason fe = msg \<and> fe_ex fe = None \<and>
        ex fe = Inl Null_dereference))"
  by (simp add: future_exception_ctor_def reason_def ex_def future_fail_def apply_state_no_tasks)

theorem failure_record_drops_error_witness:
  "tasks_m (heap two_futures 0) = [] \<and>
   (\<exists>w' fe. future_fail (run_cont 0) ''boom'' ''disk'' 0 two_futures = Normal 0 w' \<and>
        ex_m (heap w' 0) = Some fe \<and> reason fe = ''boom'' \<and> fe_ex fe = None \<and>
        ex fe = Inl Null_dereference)"
  using failure_record_drops_error
    [of "Fail_exception ''boom''" "''disk''" two_futures 0 "run_cont 0" "''boom''"]
  by (simp add: scenario_defs)

section \<open>The accessors check the state\<close>

text \<open>
  C8. \<^verbatim>\<open>value()\<close> returns the stored value when the state is done and throws the
  invalid-state error \<^verbatim>\<open>std::runtime_error("future is not complete")\<close> in every other
  state; \<^verbatim>\<open>failure()\<close> and \<^verbatim>\<open>failure_reason()\<close> return the record and its reason
  when the state is failed and throw \<^verbatim>\<open>std::runtime_error("future is not failed")\<close> in
  every other state. No default is returned: a done future has a value and a failed
  one a record, an invariant (\<open>stored\<close>) that every resolving call keeps, whatever
  the continuations it dispatches do.
\<close>

theorem accessors_check_state:
  "(state_m (heap w fid) = Done \<and> value_m (heap w fid) = Some v \<longrightarrow> future_value fid w = Normal v w) \<and>
   (state_m (heap w fid) \<noteq> Done \<longrightarrow>
      future_value fid w = Raised (Thrown_std (Runtime_error ''future is not complete'')) w) \<and>
   (state_m (heap w fid) = Failed \<and> ex_m (heap w fid) = Some fe \<longrightarrow>
      future_failure fid w = Normal fe w \<and> future_failure_reason fid w = Normal (reason fe) w) \<and>
   (state_m (heap w fid) \<noteq> Failed \<longrightarrow>
      future_failure fid w = Raised (Thrown_std (Runtime_error ''future is not failed'')) w \<and>
      future_failure_reason fid w = Raised (Thrown_std (Runtime_error ''future is not failed'')) w) \<and>
   (stored w \<longrightarrow> holds stored (resolve (run_cont n) r i w)) \<and>
   (stored w \<and> state_m (heap w fid) = Done \<longrightarrow> (\<exists>x. future_value fid w = Normal x w)) \<and>
   (stored w \<and> state_m (heap w fid) = Failed \<longrightarrow>
      (\<exists>x. future_failure fid w = Normal x w \<and> future_failure_reason fid w = Normal (reason x) w))"
proof -
  have keep: "stored w \<longrightarrow> holds stored (resolve (run_cont n) r i w)"
    by (simp add: resolve_keeps stable_stored)
  have rest: "(state_m (heap w fid) = Done \<and> value_m (heap w fid) = Some v \<longrightarrow> future_value fid w = Normal v w) \<and>
   (state_m (heap w fid) \<noteq> Done \<longrightarrow>
      future_value fid w = Raised (Thrown_std (Runtime_error ''future is not complete'')) w) \<and>
   (state_m (heap w fid) = Failed \<and> ex_m (heap w fid) = Some fe \<longrightarrow>
      future_failure fid w = Normal fe w \<and> future_failure_reason fid w = Normal (reason fe) w) \<and>
   (state_m (heap w fid) \<noteq> Failed \<longrightarrow>
      future_failure fid w = Raised (Thrown_std (Runtime_error ''future is not failed'')) w \<and>
      future_failure_reason fid w = Raised (Thrown_std (Runtime_error ''future is not failed'')) w)"
    by (simp add: future_value_def future_failure_def future_failure_reason_def)
  have rd: "stored w \<and> state_m (heap w fid) = Done \<longrightarrow> (\<exists>x. future_value fid w = Normal x w)"
    by (auto simp: future_value_def stored_def)
  have rf: "stored w \<and> state_m (heap w fid) = Failed \<longrightarrow>
      (\<exists>x. future_failure fid w = Normal x w \<and> future_failure_reason fid w = Normal (reason x) w)"
    by (auto simp: future_failure_def future_failure_reason_def stored_def)
  from keep rest rd rf show ?thesis by blast
qed

theorem accessors_check_state_witness:
  "state_m (heap done_then_failed 0) = Done \<and> value_m (heap done_then_failed 0) = Some 7 \<and>
   future_value 0 done_then_failed = Normal 7 done_then_failed \<and>
   state_m (heap done_then_failed 1) \<noteq> Done \<and>
   future_value 1 done_then_failed =
     Raised (Thrown_std (Runtime_error ''future is not complete'')) done_then_failed \<and>
   state_m (heap done_then_failed 1) = Failed \<and>
   future_failure_reason 1 done_then_failed = Normal ''boom'' done_then_failed \<and>
   state_m (heap done_then_failed 0) \<noteq> Failed \<and>
   future_failure 0 done_then_failed =
     Raised (Thrown_std (Runtime_error ''future is not failed'')) done_then_failed \<and>
   stored done_then_failed \<and>
   holds stored (resolve (run_cont 0) Resolve_cancel 0 done_then_failed)"
  using accessors_check_state
      [of done_then_failed 0 7 "\<lparr>fe_ex = None, fe_component = ''disk'', fe_reason = ''boom''\<rparr>"
          0 Resolve_cancel 0]
    accessors_check_state
      [of done_then_failed 1 7 "\<lparr>fe_ex = None, fe_component = ''disk'', fe_reason = ''boom''\<rparr>"
          0 Resolve_cancel 0]
    stored_done_then_failed
  by (simp add: done_then_failed_simp reason_def)

section \<open>A second resolving call\<close>

text \<open>
  C1, as the spec states it, asks that a resolving call on an already-terminal future
  change nothing. \<^verbatim>\<open>apply_state\<close> has no such guard. In the store with two futures,
  future 0 is resolved with \<^verbatim>\<open>done(7)\<close> and then with \<^verbatim>\<open>fail("late")\<close>: the state
  goes from done to failed, the resolution time from 2 to 3, and a failure record with
  the reason \<^verbatim>\<open>"late"\<close> is stored.
\<close>

theorem second_resolution_takes_effect:
  "state_after (future_done (run_cont 0) 7 0 two_futures) 0 = Some Done \<and>
   state_after (bind (future_done (run_cont 0) 7 0 two_futures)
                  (\<lambda>_. future_fail (run_cont 0) ''late'' unknown 0)) 0 = Some Failed \<and>
   resolved_m (heap (world_of (future_done (run_cont 0) 7 0 two_futures)) 0) = 2 \<and>
   resolved_m (heap (world_of (bind (future_done (run_cont 0) 7 0 two_futures)
                  (\<lambda>_. future_fail (run_cont 0) ''late'' unknown 0))) 0) = 3 \<and>
   failure_reason_of (heap (world_of (bind (future_done (run_cont 0) 7 0 two_futures)
                  (\<lambda>_. future_fail (run_cont 0) ''late'' unknown 0))) 0) = Some ''late''"
  by (simp add: scenario_defs future_done_def future_fail_def apply_state_no_tasks
      failure_reason_of_def future_exception_ctor_def reason_def)

text \<open>
  C1, amended. Every resolving call takes effect. On an already-terminal future, whose
  queue is empty, \<^verbatim>\<open>done\<close>, \<^verbatim>\<open>fail\<close> and \<^verbatim>\<open>cancel\<close> each run their effect again (the
  value or a new failure record is stored), stamp the resolution time again and set
  their own terminal state; nothing else in the store changes, so no continuation is
  dispatched, whatever the dispatcher. That a terminal future has an empty queue is an
  invariant every resolving call keeps, and a terminal future is never pending again.
\<close>

theorem later_resolution_overwrites:
  "(state_m (heap w fid) \<noteq> Pending \<and> tasks_m (heap w fid) = [] \<longrightarrow>
      future_done run v fid w =
        Normal fid (w\<lparr>clock := Suc (clock w),
          heap := (heap w)(fid := (heap w fid)
            \<lparr>value_m := Some v, tasks_m := [], resolved_m := clock w, state_m := Done\<rparr>)\<rparr>) \<and>
      future_fail run msg component fid w =
        Normal fid (w\<lparr>clock := Suc (clock w),
          heap := (heap w)(fid := (heap w fid)
            \<lparr>ex_m := Some (future_exception_ctor (Fail_exception msg) component),
             tasks_m := [], resolved_m := clock w, state_m := Failed\<rparr>)\<rparr>) \<and>
      future_cancel run fid w =
        Normal fid (w\<lparr>clock := Suc (clock w),
          heap := (heap w)(fid := (heap w fid)
            \<lparr>tasks_m := [], resolved_m := clock w, state_m := Cancelled\<rparr>)\<rparr>)) \<and>
   (queue_drained w \<longrightarrow> holds queue_drained (resolve (run_cont n) r fid w)) \<and>
   (terminal i w \<longrightarrow> holds (terminal i) (resolve (run_cont n) r fid w))"
  by (simp add: future_done_def future_fail_def future_cancel_def apply_state_no_tasks
      resolve_keeps stable_queue_drained stable_terminal)

lemma queue_drained_done_then_failed: "queue_drained done_then_failed"
  by (simp add: queue_drained_def done_then_failed_simp empty_future_def)

theorem later_resolution_overwrites_witness:
  "state_m (heap done_then_failed 0) \<noteq> Pending \<and> tasks_m (heap done_then_failed 0) = [] \<and>
   state_after (future_cancel (run_cont 0) 0 done_then_failed) 0 = Some Cancelled \<and>
   state_after (future_fail (run_cont 0) ''late'' unknown 0 done_then_failed) 0 = Some Failed \<and>
   state_after (future_done (run_cont 0) 8 1 done_then_failed) 1 = Some Done \<and>
   log (world_of (future_done (run_cont 0) 8 1 done_then_failed)) = [] \<and>
   queue_drained done_then_failed \<and>
   holds queue_drained (resolve (run_cont 1) Resolve_cancel 0 done_then_failed) \<and>
   terminal 1 done_then_failed \<and>
   holds (terminal 1) (resolve (run_cont 1) Resolve_cancel 0 done_then_failed)"
  using later_resolution_overwrites
      [of done_then_failed 0 "run_cont 0" 8 "''late''" unknown 1 Resolve_cancel 1]
    later_resolution_overwrites
      [of done_then_failed 1 "run_cont 0" 8 "''late''" unknown 1 Resolve_cancel 1]
    queue_drained_done_then_failed
  by (simp add: done_then_failed_simp terminal_def)

section \<open>needs_all of nothing\<close>

text \<open>
  C4 asks that \<^verbatim>\<open>needs_all\<close> of no input return a future that is already done, for
  the call with no argument and for the call with an empty collection alike. The first
  does (\<^verbatim>\<open>f->done(0)\<close>). The second creates the future, sets the counter to 0 and
  registers on nothing: whatever the store, the future it returns is pending, with an
  empty queue, and no input exists whose resolution could ever reach it.
\<close>

theorem needs_all_empty_vector_stays_pending:
  "state_after (needs_all_vector run [] w) (next_fid w) = Some Pending \<and>
   state_after (needs_all run [] w) (next_fid w) = Some Done \<and>
   (\<exists>w'. needs_all_vector run [] w = Normal (next_fid w) w' \<and> tasks_m (heap w' (next_fid w)) = [])"
  by (simp add: needs_all_vector_def needs_all_none_def create_shared_simp new_counter_def
      future_done_def apply_state_no_tasks Let_def)

section \<open>Errors thrown by the callbacks of then\<close>

text \<open>
  The two handlers of \<^verbatim>\<open>then\<close> catch a \<^verbatim>\<open>std::runtime_error\<close> (and a
  \<^verbatim>\<open>future_exception\<close>): on a source that is done, with an \<open>ok\<close> that throws one,
  \<^verbatim>\<open>then\<close> returns normally and the outer future is failed with the error's message.
\<close>

lemma then_catches_runtime_error:
  "state_m (heap w me) = Done \<and> value_m (heap w me) = Some v \<and> me \<noteq> next_fid w \<and>
   ok v = Inl (Thrown_std x) \<and> is_runtime_error x \<longrightarrow>
   (\<exists>w'. future_then (run_cont (Suc n)) ok err me w = Normal (next_fid w) w' \<and>
         state_m (heap w' (next_fid w)) = Failed \<and>
         failure_reason_of (heap w' (next_fid w)) = Some (what x))"
  by (simp add: future_then_def create_shared_simp call_when_ready_def Let_def invoke_def
      then_code_def then_try_def is_ready_def is_done_def future_value_def propagate_def
      then_catch_def future_fail_def apply_state_no_tasks discard_def failure_reason_of_def
      reason_def future_exception_ctor_def)

text \<open>
  C3 asks that every error the callback raises be caught and turned into a failure of
  the outer future. An error that is a \<^verbatim>\<open>std::exception\<close> but not a
  \<^verbatim>\<open>std::runtime_error\<close> (a \<^verbatim>\<open>std::logic_error\<close>) has no handler: on a source that
  is done, with an \<open>ok\<close> that throws one, the error leaves \<^verbatim>\<open>then\<close> and the outer
  future stays pending.
\<close>

theorem then_lets_logic_error_escape:
  "state_m (heap w me) = Done \<and> value_m (heap w me) = Some v \<and> me \<noteq> next_fid w \<and>
   ok v = Inl (Thrown_std (Logic_error m)) \<longrightarrow>
   (\<exists>w'. future_then (run_cont (Suc n)) ok err me w = Raised (Thrown_std (Logic_error m)) w' \<and>
         state_m (heap w' (next_fid w)) = Pending)"
  by (simp add: future_then_def create_shared_simp call_when_ready_def Let_def invoke_def
      then_code_def then_try_def is_ready_def is_done_def future_value_def propagate_def
      then_catch_def)

theorem then_lets_logic_error_escape_witness:
  "state_m (heap done_then_failed 0) = Done \<and> value_m (heap done_then_failed 0) = Some 7 \<and>
   0 \<noteq> next_fid done_then_failed \<and>
   (\<exists>w'. future_then (run_cont 1) (\<lambda>v. Inl (Thrown_std (Logic_error ''bad''))) None 0 done_then_failed
           = Raised (Thrown_std (Logic_error ''bad'')) w' \<and>
         state_m (heap w' 2) = Pending)"
  using then_lets_logic_error_escape
    [of done_then_failed 0 7 "\<lambda>v. Inl (Thrown_std (Logic_error ''bad''))" "''bad''" 0 None]
  by (simp add: done_then_failed_simp)

section \<open>needs_any over a collection\<close>

text \<open>
  C2 asks that \<^verbatim>\<open>needs_any\<close> of a collection fail only once every input has resolved
  without being done. Its lambda fails the result on the first input that resolves
  without being done. With the two futures 0 and 1 as inputs, the result is future 2;
  when future 0 fails, the result is failed with the reason \<^verbatim>\<open>"error"\<close> while future 1
  is still pending, and it stays failed when future 1 is then done.
\<close>

theorem needs_any_fails_on_first_failure:
  "state_after (bind (needs_any_vector (run_cont 1) [0, 1] two_futures)
                  (\<lambda>_. future_fail (run_cont 1) ''x'' unknown 0)) 2 = Some Failed \<and>
   state_after (bind (needs_any_vector (run_cont 1) [0, 1] two_futures)
                  (\<lambda>_. future_fail (run_cont 1) ''x'' unknown 0)) 1 = Some Pending \<and>
   failure_reason_of (heap (world_of (bind (needs_any_vector (run_cont 1) [0, 1] two_futures)
                  (\<lambda>_. future_fail (run_cont 1) ''x'' unknown 0))) 2) = Some ''error'' \<and>
   state_after (bind (bind (needs_any_vector (run_cont 1) [0, 1] two_futures)
                  (\<lambda>_. future_fail (run_cont 1) ''x'' unknown 0))
                  (\<lambda>_. future_done (run_cont 1) 7 1)) 2 = Some Failed \<and>
   state_after (bind (bind (needs_any_vector (run_cont 1) [0, 1] two_futures)
                  (\<lambda>_. future_fail (run_cont 1) ''x'' unknown 0))
                  (\<lambda>_. future_done (run_cont 1) 7 1)) 1 = Some Done"
  by (simp add: scenario_defs needs_any_vector_def on_ready_def call_when_ready_def
      future_fail_def future_done_def apply_state_def critical_section_simp invoke_def
      needs_code_def is_ready_def is_done_def discard_def failure_reason_of_def
      future_exception_ctor_def reason_def Let_def)

section \<open>Registration before and after resolution\<close>

lemma register_wrapper: "register run m u fid w = call_when_ready run (wrapper m u) fid w"
  by (cases m) (simp_all add: on_ready_def on_done_def on_fail_failure_def on_fail_def
      on_cancel_future_def on_cancel_def)

lemma resolve_with_queued:
  assumes "state_m (heap w fid) = Pending"
  shows "bind (call_when_ready run c fid w) (\<lambda>_. resolve run r fid)
       = bind (resolve run r fid w) (\<lambda>_ w'. bind (run c fid w') (\<lambda>_. Normal fid))"
proof -
  have one: "\<And>w'. run_pending run [c] fid w' = run c fid w'"
    by (case_tac "run c fid w'") simp_all
  show ?thesis
    using assms
    by (cases r)
       (simp_all add: call_when_ready_def future_done_def future_fail_def future_cancel_def
          apply_state_def critical_section_simp run_pending_append bind_assoc Let_def)
qed

lemma handler_at_once:
  assumes "stored w" "state_m (heap w fid) \<noteq> Pending"
  shows "register (run_cont (Suc n)) m (Records k) fid w =
     Normal fid (called k (delivered m fid (heap w fid)) w)"
  using assms(2)
  by (simp add: register_wrapper call_when_ready_def wrapper_invoked[OF assms(1)]
      del: run_cont.simps)


lemma register_resolve_commute_all:
  assumes "state_m (heap w fid) = Pending"
  shows "bind (call_when_ready (run_cont n) c fid w) (\<lambda>_. resolve (run_cont n) r fid)
       = bind (resolve (run_cont n) r fid w) (\<lambda>_. call_when_ready (run_cont n) c fid)"
proof (cases r)
  case (Resolve_done v)
  show ?thesis
    unfolding Resolve_done resolve.simps future_done_def
    by (rule register_resolve_commute[OF assms]) simp_all
next
  case (Resolve_fail msg component)
  show ?thesis
    unfolding Resolve_fail resolve.simps future_fail_def Let_def
    by (rule register_resolve_commute[OF assms]) simp_all
next
  case Resolve_cancel
  show ?thesis
    unfolding Resolve_cancel resolve.simps future_cancel_def
    by (rule register_resolve_commute[OF assms]) simp_all
qed

lemma resolve_leaves_terminal: "holds (terminal fid) (resolve (run_cont n) r fid w)"
  by (cases r)
     (auto simp: future_done_def future_fail_def future_cancel_def Let_def
        intro!: holds_apply_state preserved_run_cont stable_terminal
        simp: critical_section_simp terminal_def)

lemma handler_after_queue:
  assumes "stored w" "state_m (heap w fid) = Pending"
    "resolve (run_cont (Suc n)) r fid w = Normal fid w3"
  shows "state_m (heap w3 fid) \<noteq> Pending"
    "bind (register (run_cont (Suc n)) m (Records k) fid w) (\<lambda>_. resolve (run_cont (Suc n)) r fid)
       = Normal fid (called k (delivered m fid (heap w3 fid)) w3)"
    "bind (resolve (run_cont (Suc n)) r fid w) (\<lambda>_. register (run_cont (Suc n)) m (Records k) fid)
       = Normal fid (called k (delivered m fid (heap w3 fid)) w3)"
proof -
  let ?R = "run_cont (Suc n)"
  have t: "state_m (heap w3 fid) \<noteq> Pending"
    using resolve_leaves_terminal[of fid "Suc n" r w] assms(3) by (simp add: terminal_def)
  have s: "stored w3"
    using resolve_keeps[OF stable_stored assms(1), of "Suc n" r fid] assms(3) by simp
  show "state_m (heap w3 fid) \<noteq> Pending" by (rule t)
  have now: "register ?R m (Records k) fid w3 = Normal fid (called k (delivered m fid (heap w3 fid)) w3)"
    by (rule handler_at_once[OF s t])
  show "bind (resolve ?R r fid w) (\<lambda>_. register ?R m (Records k) fid)
       = Normal fid (called k (delivered m fid (heap w3 fid)) w3)"
    using assms(3) now by simp
  have "bind (register ?R m (Records k) fid w) (\<lambda>_. resolve ?R r fid)
      = bind (resolve ?R r fid w) (\<lambda>_ w'. bind (?R (wrapper m (Records k)) fid w') (\<lambda>_. Normal fid))"
    unfolding register_wrapper by (rule resolve_with_queued[OF assms(2)])
  also have "\<dots> = bind (?R (wrapper m (Records k)) fid w3) (\<lambda>_. Normal fid)"
    using assms(3) by simp
  also have "\<dots> = register ?R m (Records k) fid w3"
    using t by (simp add: register_wrapper call_when_ready_def)
  finally show "bind (register ?R m (Records k) fid w) (\<lambda>_. resolve ?R r fid)
       = Normal fid (called k (delivered m fid (heap w3 fid)) w3)"
    using now by simp
qed

lemma handler_discarded:
  assumes "state_m (heap w fid) = Pending" "resolve run r fid w = Raised e w3"
  shows "bind (register run m u fid w) (\<lambda>_. resolve run r fid) = Raised e w3"
  unfolding register_wrapper resolve_with_queued[OF assms(1)] using assms(2) by simp

text \<open>
  C6, as the spec states it, asks that a continuation queued on a pending future be
  invoked exactly once when the future resolves, with the same effect as when it is
  registered after the resolution. The loop of \<^verbatim>\<open>apply_state\<close> has no handler for what a
  continuation throws: the batch was moved out of the future, so the continuations
  behind a throwing one are dropped. With a throwing handler waiting on future 0, a
  handler registered with \<^verbatim>\<open>on_done\<close> behind it is not invoked by \<^verbatim>\<open>done(7)\<close>, which
  throws, and the queue is gone; registered after that same call it is invoked with 7.
\<close>

theorem handler_behind_thrower_is_dropped:
  "tasks_m (heap thrower_waiting 0) = [Ready_user (Throws boom)] \<and>
   thrown_of (bind (on_done (run_cont 1) (Value_user (Records 5)) 0 thrower_waiting)
                (\<lambda>_. future_done (run_cont 1) 7 0)) = Some boom \<and>
   log (world_of (bind (on_done (run_cont 1) (Value_user (Records 5)) 0 thrower_waiting)
                (\<lambda>_. future_done (run_cont 1) 7 0))) = [] \<and>
   state_after (bind (on_done (run_cont 1) (Value_user (Records 5)) 0 thrower_waiting)
                (\<lambda>_. future_done (run_cont 1) 7 0)) 0 = Some Done \<and>
   tasks_m (heap (world_of (bind (on_done (run_cont 1) (Value_user (Records 5)) 0 thrower_waiting)
                (\<lambda>_. future_done (run_cont 1) 7 0))) 0) = [] \<and>
   log (world_of (on_done (run_cont 1) (Value_user (Records 5)) 0
          (world_of (future_done (run_cont 1) 7 0 thrower_waiting)))) = [(5, Arg_value 7)]"
  by (simp add: thrower_waiting_def boom_def scenario_defs on_ready_def on_done_def
      call_when_ready_def future_done_def apply_state_def critical_section_simp invoke_def
      run_user_def is_done_def future_value_def run_value_code_def Let_def)

text \<open>
  C6, amended. Registration (\<^verbatim>\<open>call_when_ready\<close>, to which \<^verbatim>\<open>on_ready\<close>, \<^verbatim>\<open>on_done\<close>,
  both \<^verbatim>\<open>on_fail\<close> and both \<^verbatim>\<open>on_cancel\<close> hand their wrapper) on a terminal future is
  one invocation of the continuation on that future, there and then. On a pending
  future it appends the continuation to the queue and invokes nothing; the resolving
  call then does what it does without that continuation and, if that returns, invokes
  the continuation once, on the resolved future: the same outcome as resolving first
  and registering afterwards, for every continuation, every queue already waiting,
  each of \<^verbatim>\<open>done\<close>, \<^verbatim>\<open>fail\<close> and \<^verbatim>\<open>cancel\<close>, and every fuel. So when the continuations
  queued before it return, a user's handler registered by any of the six methods is
  called exactly once if the state is the one it filters on, with the argument the
  resolved future delivers, and not called otherwise, whether it was registered before
  the resolving call or after it. When a continuation queued before it throws, the
  resolving call ends with that error and the handler is discarded: the outcome is the
  one without the registration.
\<close>

theorem registration_runs_once:
  "(state_m (heap w fid) \<noteq> Pending \<longrightarrow>
      call_when_ready run c fid w = bind (run c fid w) (\<lambda>_. Normal fid)) \<and>
   (state_m (heap w fid) = Pending \<longrightarrow>
      call_when_ready run c fid w =
        Normal fid (w\<lparr>heap := (heap w)(fid := (heap w fid)\<lparr>tasks_m := tasks_m (heap w fid) @ [c]\<rparr>)\<rparr>) \<and>
      bind (call_when_ready run c fid w) (\<lambda>_. resolve run r fid)
        = bind (resolve run r fid w) (\<lambda>_ w'. bind (run c fid w') (\<lambda>_. Normal fid)) \<and>
      bind (call_when_ready (run_cont n) c fid w) (\<lambda>_. resolve (run_cont n) r fid)
        = bind (resolve (run_cont n) r fid w) (\<lambda>_. call_when_ready (run_cont n) c fid)) \<and>
   register run m u fid w = call_when_ready run (wrapper m u) fid w \<and>
   (stored w \<and> state_m (heap w fid) \<noteq> Pending \<longrightarrow>
      register (run_cont (Suc n)) m (Records k) fid w =
        Normal fid (called k (delivered m fid (heap w fid)) w)) \<and>
   (stored w \<and> state_m (heap w fid) = Pending \<and>
    resolve (run_cont (Suc n)) r fid w = Normal fid w3 \<longrightarrow>
      state_m (heap w3 fid) \<noteq> Pending \<and>
      bind (register (run_cont (Suc n)) m (Records k) fid w) (\<lambda>_. resolve (run_cont (Suc n)) r fid)
        = Normal fid (called k (delivered m fid (heap w3 fid)) w3) \<and>
      bind (resolve (run_cont (Suc n)) r fid w) (\<lambda>_. register (run_cont (Suc n)) m (Records k) fid)
        = Normal fid (called k (delivered m fid (heap w3 fid)) w3)) \<and>
   (state_m (heap w fid) = Pending \<and> resolve run r fid w = Raised e w3 \<longrightarrow>
      bind (register run m u fid w) (\<lambda>_. resolve run r fid) = Raised e w3)"
proof -
  have a: "state_m (heap w fid) \<noteq> Pending \<longrightarrow>
      call_when_ready run c fid w = bind (run c fid w) (\<lambda>_. Normal fid)"
    by (simp add: call_when_ready_def)
  have b: "state_m (heap w fid) = Pending \<longrightarrow>
      call_when_ready run c fid w =
        Normal fid (w\<lparr>heap := (heap w)(fid := (heap w fid)\<lparr>tasks_m := tasks_m (heap w fid) @ [c]\<rparr>)\<rparr>)"
    by (simp add: call_when_ready_def)
  have c: "state_m (heap w fid) = Pending \<longrightarrow>
      bind (call_when_ready run c fid w) (\<lambda>_. resolve run r fid)
        = bind (resolve run r fid w) (\<lambda>_ w'. bind (run c fid w') (\<lambda>_. Normal fid))"
    using resolve_with_queued by blast
  have d: "state_m (heap w fid) = Pending \<longrightarrow>
      bind (call_when_ready (run_cont n) c fid w) (\<lambda>_. resolve (run_cont n) r fid)
        = bind (resolve (run_cont n) r fid w) (\<lambda>_. call_when_ready (run_cont n) c fid)"
    by (simp add: register_resolve_commute_all)
  have e: "register run m u fid w = call_when_ready run (wrapper m u) fid w"
    by (rule register_wrapper)
  have f: "stored w \<and> state_m (heap w fid) \<noteq> Pending \<longrightarrow>
      register (run_cont (Suc n)) m (Records k) fid w =
        Normal fid (called k (delivered m fid (heap w fid)) w)"
    using handler_at_once by blast
  have g: "stored w \<and> state_m (heap w fid) = Pending \<and>
    resolve (run_cont (Suc n)) r fid w = Normal fid w3 \<longrightarrow>
      state_m (heap w3 fid) \<noteq> Pending \<and>
      bind (register (run_cont (Suc n)) m (Records k) fid w) (\<lambda>_. resolve (run_cont (Suc n)) r fid)
        = Normal fid (called k (delivered m fid (heap w3 fid)) w3) \<and>
      bind (resolve (run_cont (Suc n)) r fid w) (\<lambda>_. register (run_cont (Suc n)) m (Records k) fid)
        = Normal fid (called k (delivered m fid (heap w3 fid)) w3)"
    using handler_after_queue by blast
  have h: "state_m (heap w fid) = Pending \<and> resolve run r fid w = Raised e w3 \<longrightarrow>
      bind (register run m u fid w) (\<lambda>_. resolve run r fid) = Raised e w3"
    using handler_discarded by blast
  from a b c d e f g h show ?thesis by blast
qed


theorem registration_runs_once_witness:
  "state_m (heap done_then_failed 1) \<noteq> Pending \<and> stored done_then_failed \<and>
   call_when_ready (run_cont 1) (Ready_user (Records 5)) 1 done_then_failed
     = Normal 1 (done_then_failed\<lparr>log := [(5, Arg_future 1 Failed)]\<rparr>) \<and>
   register (run_cont 1) Reg_fail_reason (Records 5) 1 done_then_failed
     = Normal 1 (done_then_failed\<lparr>log := [(5, Arg_reason ''boom'')]\<rparr>) \<and>
   register (run_cont 1) Reg_cancel (Records 5) 1 done_then_failed = Normal 1 done_then_failed \<and>
   state_m (heap listener_waiting 1) = Pending \<and> stored listener_waiting \<and>
   tasks_m (heap listener_waiting 1) = [Ready_user (Records 1)] \<and>
   tasks_m (heap (world_of (call_when_ready (run_cont 1) (On_fail_failure (Records 5)) 1 listener_waiting)) 1)
     = [Ready_user (Records 1), On_fail_failure (Records 5)] \<and>
   resolve (run_cont 1) (Resolve_fail ''late'' ''net'') 1 listener_waiting
     = Normal 1 (world_of (resolve (run_cont 1) (Resolve_fail ''late'' ''net'') 1 listener_waiting)) \<and>
   log (world_of (bind (register (run_cont 1) Reg_fail_reason (Records 5) 1 listener_waiting)
          (\<lambda>_. resolve (run_cont 1) (Resolve_fail ''late'' ''net'') 1)))
     = [(1, Arg_future 1 Failed), (5, Arg_reason ''late'')] \<and>
   log (world_of (bind (resolve (run_cont 1) (Resolve_fail ''late'' ''net'') 1 listener_waiting)
          (\<lambda>_. register (run_cont 1) Reg_fail_reason (Records 5) 1)))
     = [(1, Arg_future 1 Failed), (5, Arg_reason ''late'')] \<and>
   state_m (heap thrower_waiting 0) = Pending \<and>
   resolve (run_cont 1) (Resolve_done 7) 0 thrower_waiting
     = Raised boom (world_of (resolve (run_cont 1) (Resolve_done 7) 0 thrower_waiting)) \<and>
   bind (register (run_cont 1) Reg_done (Records 5) 0 thrower_waiting)
       (\<lambda>_. resolve (run_cont 1) (Resolve_done 7) 0)
     = Raised boom (world_of (resolve (run_cont 1) (Resolve_done 7) 0 thrower_waiting))"
proof -
  let ?late = "Resolve_fail ''late'' ''net''"
  let ?w3 = "world_of (resolve (run_cont 1) ?late 1 listener_waiting)"
  let ?w4 = "world_of (resolve (run_cont 1) (Resolve_done 7) 0 thrower_waiting)"
  have one: "Suc 0 = 1" by simp
  have st: "stored done_then_failed" "stored listener_waiting"
    by (simp_all add: stored_def done_then_failed_simp listener_waiting_simp empty_future_def)
  have t: "state_m (heap done_then_failed 1) \<noteq> Pending"
    "state_m (heap listener_waiting 1) = Pending" "state_m (heap thrower_waiting 0) = Pending"
    "tasks_m (heap listener_waiting 1) = [Ready_user (Records 1)]"
    by (simp_all add: done_then_failed_simp listener_waiting_simp thrower_waiting_simp)
  have dtf: "state_m (heap done_then_failed 1) = Failed" "log done_then_failed = []"
    "ex_m (heap done_then_failed 1) = Some \<lparr>fe_ex = None, fe_component = ''disk'', fe_reason = ''boom''\<rparr>"
    by (simp_all add: done_then_failed_simp)
  have r1: "resolve (run_cont 1) ?late 1 listener_waiting = Normal 1 ?w3"
    by (simp add: listener_waiting_simp future_fail_def apply_state_def critical_section_simp
        invoke_def run_user_def Let_def)
  have r2: "resolve (run_cont 1) (Resolve_done 7) 0 thrower_waiting = Raised boom ?w4"
    by (simp add: thrower_waiting_simp future_done_def apply_state_def critical_section_simp
        invoke_def run_user_def Let_def)
  have l1: "log ?w3 = [(1, Arg_future 1 Failed)]"
    "state_m (heap ?w3 1) = Failed"
    "ex_m (heap ?w3 1) = Some \<lparr>fe_ex = None, fe_component = ''net'', fe_reason = ''late''\<rparr>"
    by (simp_all add: listener_waiting_simp future_fail_def apply_state_def critical_section_simp
        invoke_def run_user_def Let_def future_exception_ctor_def)
  note A = registration_runs_once
    [where w = done_then_failed and fid = 1 and run = "run_cont 1" and c = "Ready_user (Records 5)"
       and n = 0 and k = 5, unfolded one]
  note B = registration_runs_once
    [where w = listener_waiting and fid = 1 and run = "run_cont 1" and c = "On_fail_failure (Records 5)"
       and n = 0 and k = 5 and r = ?late and m = Reg_fail_reason and ?w3.0 = ?w3, unfolded one]
  note C = registration_runs_once
    [where w = thrower_waiting and fid = 0 and run = "run_cont 1" and r = "Resolve_done 7"
       and m = Reg_done and u = "Records 5" and e = boom and ?w3.0 = ?w4]
  have "call_when_ready (run_cont 1) (Ready_user (Records 5)) 1 done_then_failed
     = bind (run_cont 1 (Ready_user (Records 5)) 1 done_then_failed) (\<lambda>_. Normal 1)"
    using A[THEN conjunct1] t(1) by blast
  then have a: "call_when_ready (run_cont 1) (Ready_user (Records 5)) 1 done_then_failed
     = Normal 1 (done_then_failed\<lparr>log := [(5, Arg_future 1 Failed)]\<rparr>)"
    unfolding one[symmetric] by (simp add: invoke_def run_user_def dtf[unfolded One_nat_def])
  have "register (run_cont 1) Reg_fail_reason (Records 5) 1 done_then_failed
     = Normal 1 (called 5 (delivered Reg_fail_reason 1 (heap done_then_failed 1)) done_then_failed)"
    using A[where m = Reg_fail_reason, THEN conjunct2, THEN conjunct2, THEN conjunct2, THEN conjunct1]
      t(1) st(1) by blast
  then have b: "register (run_cont 1) Reg_fail_reason (Records 5) 1 done_then_failed
     = Normal 1 (done_then_failed\<lparr>log := [(5, Arg_reason ''boom'')]\<rparr>)"
    by (simp add: called_def dtf dtf[unfolded One_nat_def] reason_def del: register.simps)
  have "register (run_cont 1) Reg_cancel (Records 5) 1 done_then_failed
     = Normal 1 (called 5 (delivered Reg_cancel 1 (heap done_then_failed 1)) done_then_failed)"
    using A[where m = Reg_cancel, THEN conjunct2, THEN conjunct2, THEN conjunct2, THEN conjunct1]
      t(1) st(1) by blast
  then have c: "register (run_cont 1) Reg_cancel (Records 5) 1 done_then_failed = Normal 1 done_then_failed"
    by (simp add: called_def dtf dtf[unfolded One_nat_def] del: register.simps)
  have "call_when_ready (run_cont 1) (On_fail_failure (Records 5)) 1 listener_waiting =
      Normal 1 (listener_waiting\<lparr>heap := (heap listener_waiting)
        (1 := (heap listener_waiting 1)\<lparr>tasks_m := tasks_m (heap listener_waiting 1) @ [On_fail_failure (Records 5)]\<rparr>)\<rparr>)"
    using B[THEN conjunct2, THEN conjunct1] t(2) by blast
  then have d: "tasks_m (heap (world_of (call_when_ready (run_cont 1) (On_fail_failure (Records 5)) 1 listener_waiting)) 1)
     = [Ready_user (Records 1), On_fail_failure (Records 5)]"
    by (simp add: t(4)[unfolded One_nat_def])
  have "bind (register (run_cont 1) Reg_fail_reason (Records 5) 1 listener_waiting)
          (\<lambda>_. resolve (run_cont 1) ?late 1)
        = Normal 1 (called 5 (delivered Reg_fail_reason 1 (heap ?w3 1)) ?w3) \<and>
      bind (resolve (run_cont 1) ?late 1 listener_waiting)
          (\<lambda>_. register (run_cont 1) Reg_fail_reason (Records 5) 1)
        = Normal 1 (called 5 (delivered Reg_fail_reason 1 (heap ?w3 1)) ?w3)"
    using B[THEN conjunct2, THEN conjunct2, THEN conjunct2, THEN conjunct2, THEN conjunct1]
      t(2) st(2) r1 by blast
  moreover have "log (called 5 (delivered Reg_fail_reason 1 (heap ?w3 1)) ?w3)
      = [(1, Arg_future 1 Failed), (5, Arg_reason ''late'')]"
    by (simp add: called_def l1 l1[unfolded One_nat_def] reason_def del: resolve.simps)
  ultimately have e: "log (world_of (bind (register (run_cont 1) Reg_fail_reason (Records 5) 1 listener_waiting)
          (\<lambda>_. resolve (run_cont 1) ?late 1)))
     = [(1, Arg_future 1 Failed), (5, Arg_reason ''late'')]"
    "log (world_of (bind (resolve (run_cont 1) ?late 1 listener_waiting)
          (\<lambda>_. register (run_cont 1) Reg_fail_reason (Records 5) 1)))
     = [(1, Arg_future 1 Failed), (5, Arg_reason ''late'')]"
    by (simp_all del: resolve.simps register.simps)
  have f: "bind (register (run_cont 1) Reg_done (Records 5) 0 thrower_waiting)
       (\<lambda>_. resolve (run_cont 1) (Resolve_done 7) 0) = Raised boom ?w4"
    using C[THEN conjunct2, THEN conjunct2, THEN conjunct2, THEN conjunct2, THEN conjunct2]
      t(3) r2 by blast
  from st t a b c d e f r1 r2 show ?thesis by blast
qed

section \<open>then mirrors the inner future\<close>





















section \<open>needs_all over a collection\<close>



















lemma two_futures_simp:
  "two_futures =
     \<lparr>heap = (\<lambda>_. empty_future)
        (0 := \<lparr>state_m = Pending, tasks_m = [], ex_m = None, label_m = unlabelled,
              created_m = 0, resolved_m = 0, value_m = None\<rparr>,
         1 := \<lparr>state_m = Pending, tasks_m = [], ex_m = None, label_m = unlabelled,
              created_m = 1, resolved_m = 0, value_m = None\<rparr>),
      next_fid = 2, counters = (\<lambda>_. 0), next_cid = 0, clock = 2, log = []\<rparr>"
  by (simp add: scenario_defs numeral_2_eq_2)


section \<open>The variadic needs_any\<close>

lemma bind_Normal_right: "bind m (\<lambda>x w. bind (k x w) h) = bind (bind m k) h"
  by (cases m) simp_all

lemma needs_any_is_pair:
  "needs_any run (first # r # rs) w =
     bind (needs_all run (r # rs) w) (\<lambda>remainder. needs_any_vector run [first, remainder])"
proof -
  have pair: "\<And>remainder w0.
      (let (f, w1) = create_shared unlabelled w0; code = Needs_code f
       in bind (on_ready run code first w1)
            (\<lambda>_ w3. bind (on_ready run code remainder w3) (\<lambda>_. Normal f)))
      = needs_any_vector run [first, remainder] w0"
  proof -
    fix remainder w0
    obtain f w1 where c: "create_shared unlabelled w0 = (f, w1)"
      by (cases "create_shared unlabelled w0")
    show "(let (f, w1) = create_shared unlabelled w0; code = Needs_code f
       in bind (on_ready run code first w1)
            (\<lambda>_ w3. bind (on_ready run code remainder w3) (\<lambda>_. Normal f)))
      = needs_any_vector run [first, remainder] w0"
    proof (cases "on_ready run (Needs_code f) first w1")
      case (Normal x w3)
      then show ?thesis
        by (cases "on_ready run (Needs_code f) remainder w3")
           (simp_all add: needs_any_vector_def c)
    qed (simp_all add: needs_any_vector_def c)
  qed
  have "(\<lambda>remainder w0.
      (let (f, w1) = create_shared unlabelled w0; code = Needs_code f
       in bind (on_ready run code first w1)
            (\<lambda>_ w3. bind (on_ready run code remainder w3) (\<lambda>_. Normal f))))
      = (\<lambda>remainder. needs_any_vector run [first, remainder])"
    by (intro ext) (rule pair)
  then show ?thesis
    by (simp only: needs_any.simps)
qed


lemma needs_any_three_built:
  assumes "fresh_input w a" "fresh_input w b" "fresh_input w c" "a \<noteq> b" "a \<noteq> c" "b \<noteq> c"
  shows "needs_any run [a, b, c] w =
    Normal (Suc (Suc (next_fid w)))
      (w\<lparr>clock := Suc (Suc (Suc (clock w))),
         heap := (heap w)
           (a := (heap w a)\<lparr>tasks_m := [Needs_code (Suc (Suc (next_fid w)))]\<rparr>,
            b := (heap w b)\<lparr>tasks_m := [Needs_counting_code (Suc (next_fid w)) (next_cid w)]\<rparr>,
            c := (heap w c)\<lparr>tasks_m := [Needs_code (next_fid w)]\<rparr>,
            next_fid w := \<lparr>state_m = Pending,
               tasks_m = [Needs_counting_code (Suc (next_fid w)) (next_cid w)], ex_m = None,
               label_m = unlabelled, created_m = clock w, resolved_m = 0, value_m = None\<rparr>,
            Suc (next_fid w) := \<lparr>state_m = Pending,
               tasks_m = [Needs_code (Suc (Suc (next_fid w)))], ex_m = None,
               label_m = unlabelled, created_m = Suc (clock w), resolved_m = 0, value_m = None\<rparr>,
            Suc (Suc (next_fid w)) := \<lparr>state_m = Pending, tasks_m = [], ex_m = None,
               label_m = unlabelled, created_m = Suc (Suc (clock w)), resolved_m = 0,
               value_m = None\<rparr>),
         next_fid := Suc (Suc (Suc (next_fid w))),
         counters := (counters w)(next_cid w := 2),
         next_cid := Suc (next_cid w)\<rparr>)"
proof -
  have ne: "a \<noteq> next_fid w" "b \<noteq> next_fid w" "c \<noteq> next_fid w"
    "a \<noteq> Suc (next_fid w)" "b \<noteq> Suc (next_fid w)" "c \<noteq> Suc (next_fid w)"
    "a \<noteq> Suc (Suc (next_fid w))" "b \<noteq> Suc (Suc (next_fid w))" "c \<noteq> Suc (Suc (next_fid w))"
    using assms(1-3) by (simp_all add: fresh_input_def)
  show ?thesis
    using assms ne
    by (simp add: fresh_input_def needs_all_single_def create_shared_simp new_counter_def
        on_ready_def call_when_ready_def Let_def fun_upd_twist)
qed

lemma fresh_input_ne:
  assumes "fresh_input w a"
  shows "a \<noteq> next_fid w" "a \<noteq> Suc (next_fid w)" "a \<noteq> Suc (Suc (next_fid w))"
  using assms by (simp_all add: fresh_input_def)

lemma needs_any_vector_three:
  assumes "fresh_input w a" "fresh_input w b" "fresh_input w c" "a \<noteq> b" "a \<noteq> c" "b \<noteq> c"
  shows "state_after (bind (needs_any_vector (run_cont (Suc n)) [a, b, c] w)
            (\<lambda>_. resolve_each (run_cont (Suc n)) [(b, Resolve_done x)]))
           (next_fid w) = Some Done"
  using assms fresh_input_ne[OF assms(1)] fresh_input_ne[OF assms(2)] fresh_input_ne[OF assms(3)]
  by (simp add: needs_any_vector_def create_shared_simp exec_defs fresh_input_def)

lemma needs_any_three_tail:
  assumes "fresh_input w a" "fresh_input w b" "fresh_input w c" "a \<noteq> b" "a \<noteq> c" "b \<noteq> c"
  shows "state_after (bind (needs_any (run_cont (Suc (Suc (Suc n)))) [a, b, c] w)
            (\<lambda>_. resolve_each (run_cont (Suc (Suc (Suc n)))) [(b, Resolve_done x)]))
           (Suc (Suc (next_fid w))) = Some Pending \<and>
      state_after (bind (needs_any (run_cont (Suc (Suc (Suc n)))) [a, b, c] w)
            (\<lambda>_. resolve_each (run_cont (Suc (Suc (Suc n)))) [(c, Resolve_done y)]))
           (Suc (Suc (next_fid w))) = Some Pending \<and>
      state_after (bind (needs_any (run_cont (Suc (Suc (Suc n)))) [a, b, c] w)
            (\<lambda>_. resolve_each (run_cont (Suc (Suc (Suc n)))) [(b, Resolve_done x), (c, Resolve_done y)]))
           (Suc (Suc (next_fid w))) = Some Done \<and>
      state_after (bind (needs_any (run_cont (Suc (Suc (Suc n)))) [a, b, c] w)
            (\<lambda>_. resolve_each (run_cont (Suc (Suc (Suc n)))) [(c, Resolve_done y), (b, Resolve_done x)]))
           (Suc (Suc (next_fid w))) = Some Done \<and>
      state_after (bind (needs_any_vector (run_cont (Suc n)) [a, b, c] w)
            (\<lambda>_. resolve_each (run_cont (Suc n)) [(b, Resolve_done x)]))
           (next_fid w) = Some Done"
  using assms fresh_input_ne[OF assms(1)] fresh_input_ne[OF assms(2)] fresh_input_ne[OF assms(3)]
  by (simp add: needs_any_three_built[OF assms] needs_any_vector_three[OF assms] exec_defs
      fresh_input_def del: needs_any.simps)

lemma needs_all_is_pair:
  "needs_all run (first # r # rs) w =
     bind (needs_all run (r # rs) w) (\<lambda>remainder. needs_all_vector run [first, remainder])"
proof -
  have pair: "\<And>remainder w0.
      (let (f, w1) = create_shared unlabelled w0; (pending, w2) = new_counter 2 w1;
           code = Needs_counting_code f pending
       in bind (on_ready run code first w2)
            (\<lambda>_ w3. bind (on_ready run code remainder w3) (\<lambda>_. Normal f)))
      = needs_all_vector run [first, remainder] w0"
  proof -
    fix remainder w0
    obtain f w1 where c: "create_shared unlabelled w0 = (f, w1)"
      by (cases "create_shared unlabelled w0")
    obtain p w2 where n: "new_counter 2 w1 = (p, w2)"
      by (cases "new_counter 2 w1")
    show "(let (f, w1) = create_shared unlabelled w0; (pending, w2) = new_counter 2 w1;
           code = Needs_counting_code f pending
       in bind (on_ready run code first w2)
            (\<lambda>_ w3. bind (on_ready run code remainder w3) (\<lambda>_. Normal f)))
      = needs_all_vector run [first, remainder] w0"
    proof (cases "on_ready run (Needs_counting_code f p) first w2")
      case (Normal x w3)
      then show ?thesis
        by (cases "on_ready run (Needs_counting_code f p) remainder w3")
           (simp_all add: needs_all_vector_def c n)
    qed (simp_all add: needs_all_vector_def c n)
  qed
  have "(\<lambda>remainder w0.
      (let (f, w1) = create_shared unlabelled w0; (pending, w2) = new_counter 2 w1;
           code = Needs_counting_code f pending
       in bind (on_ready run code first w2)
            (\<lambda>_ w3. bind (on_ready run code remainder w3) (\<lambda>_. Normal f))))
      = (\<lambda>remainder. needs_all_vector run [first, remainder])"
    by (intro ext) (rule pair)
  then show ?thesis
    by (simp only: needs_all.simps)
qed

text \<open>
  C10. \<^verbatim>\<open>needs_any(first, rest...)\<close> with at least one trailing argument is
  \<^verbatim>\<open>needs_any\<close> of the two-element collection made of \<open>first\<close> and the future that
  \<^verbatim>\<open>needs_all(rest...)\<close> returns; the variadic \<^verbatim>\<open>needs_all\<close> is built over such pairs
  in the same way. So the trailing inputs reach the result only through
  \<^verbatim>\<open>needs_all\<close>: with three pending inputs \<open>a\<close>, \<open>b\<close>, \<open>c\<close> on which nothing else
  waits, resolving \<open>b\<close> alone or \<open>c\<close> alone as done leaves the result of
  \<^verbatim>\<open>needs_any(a, b, c)\<close> pending, and it is done once both are, in either order;
  the collection form \<^verbatim>\<open>needs_any({a, b, c})\<close> is done as soon as \<open>b\<close> is.
\<close>

theorem needs_any_variadic_is_pair:
  "needs_any run (first # r # rs) w =
     bind (needs_all run (r # rs) w) (\<lambda>remainder. needs_any_vector run [first, remainder]) \<and>
   needs_all run (first # r # rs) w =
     bind (needs_all run (r # rs) w) (\<lambda>remainder. needs_all_vector run [first, remainder]) \<and>
   (fresh_input w a \<and> fresh_input w b \<and> fresh_input w c \<and> a \<noteq> b \<and> a \<noteq> c \<and> b \<noteq> c \<longrightarrow>
      state_after (bind (needs_any (run_cont (Suc (Suc (Suc n)))) [a, b, c] w)
            (\<lambda>_. resolve_each (run_cont (Suc (Suc (Suc n)))) [(b, Resolve_done x)]))
           (Suc (Suc (next_fid w))) = Some Pending \<and>
      state_after (bind (needs_any (run_cont (Suc (Suc (Suc n)))) [a, b, c] w)
            (\<lambda>_. resolve_each (run_cont (Suc (Suc (Suc n)))) [(c, Resolve_done y)]))
           (Suc (Suc (next_fid w))) = Some Pending \<and>
      state_after (bind (needs_any (run_cont (Suc (Suc (Suc n)))) [a, b, c] w)
            (\<lambda>_. resolve_each (run_cont (Suc (Suc (Suc n)))) [(b, Resolve_done x), (c, Resolve_done y)]))
           (Suc (Suc (next_fid w))) = Some Done \<and>
      state_after (bind (needs_any (run_cont (Suc (Suc (Suc n)))) [a, b, c] w)
            (\<lambda>_. resolve_each (run_cont (Suc (Suc (Suc n)))) [(c, Resolve_done y), (b, Resolve_done x)]))
           (Suc (Suc (next_fid w))) = Some Done \<and>
      state_after (bind (needs_any_vector (run_cont (Suc n)) [a, b, c] w)
            (\<lambda>_. resolve_each (run_cont (Suc n)) [(b, Resolve_done x)]))
           (next_fid w) = Some Done)"
proof (intro conjI)
  show "needs_any run (first # r # rs) w =
     bind (needs_all run (r # rs) w) (\<lambda>remainder. needs_any_vector run [first, remainder])"
    by (rule needs_any_is_pair)
  show "needs_all run (first # r # rs) w =
     bind (needs_all run (r # rs) w) (\<lambda>remainder. needs_all_vector run [first, remainder])"
    by (rule needs_all_is_pair)
qed (intro impI, elim conjE, rule needs_any_three_tail)

lemma three_futures_simp:
  "three_futures =
     \<lparr>heap = (\<lambda>_. empty_future)
        (0 := \<lparr>state_m = Pending, tasks_m = [], ex_m = None, label_m = unlabelled,
              created_m = 0, resolved_m = 0, value_m = None\<rparr>,
         1 := \<lparr>state_m = Pending, tasks_m = [], ex_m = None, label_m = unlabelled,
              created_m = 1, resolved_m = 0, value_m = None\<rparr>,
         2 := \<lparr>state_m = Pending, tasks_m = [], ex_m = None, label_m = unlabelled,
              created_m = 2, resolved_m = 0, value_m = None\<rparr>),
      next_fid = 3, counters = (\<lambda>_. 0), next_cid = 0, clock = 3, log = []\<rparr>"
  by (simp add: three_futures_def two_futures_simp create_shared_simp numeral_3_eq_3 numeral_2_eq_2)

theorem needs_any_variadic_is_pair_witness:
  "fresh_input three_futures 0 \<and> fresh_input three_futures 1 \<and> fresh_input three_futures 2 \<and>
   next_fid three_futures = 3 \<and>
   state_after (bind (needs_any (run_cont 3) [0, 1, 2] three_futures)
            (\<lambda>_. resolve_each (run_cont 3) [(1, Resolve_done 7)])) 5 = Some Pending \<and>
   state_after (bind (needs_any (run_cont 3) [0, 1, 2] three_futures)
            (\<lambda>_. resolve_each (run_cont 3) [(2, Resolve_done 8)])) 5 = Some Pending \<and>
   state_after (bind (needs_any (run_cont 3) [0, 1, 2] three_futures)
            (\<lambda>_. resolve_each (run_cont 3) [(1, Resolve_done 7), (2, Resolve_done 8)])) 5 = Some Done \<and>
   state_after (bind (needs_any (run_cont 3) [0, 1, 2] three_futures)
            (\<lambda>_. resolve_each (run_cont 3) [(2, Resolve_done 8), (1, Resolve_done 7)])) 5 = Some Done \<and>
   state_after (bind (needs_any_vector (run_cont 1) [0, 1, 2] three_futures)
            (\<lambda>_. resolve_each (run_cont 1) [(1, Resolve_done 7)])) 3 = Some Done"
proof -
  have fr: "fresh_input three_futures 0" "fresh_input three_futures 1" "fresh_input three_futures 2"
    by (simp_all add: fresh_input_def three_futures_simp)
  have nf: "next_fid three_futures = 3" by (simp add: three_futures_simp)
  have n5: "Suc (Suc 3) = 5" by simp
  have n3: "Suc (Suc (Suc 0)) = 3" by simp
  have n1: "Suc 0 = 1" by simp
  have ne: "(0::nat) \<noteq> 1" "(0::nat) \<noteq> 2" "(1::nat) \<noteq> 2" by simp_all
  note T = needs_any_variadic_is_pair
    [of "run_cont 3" 0 1 "[2]" three_futures 0 1 2 0 7 8, unfolded nf n5 n3, unfolded n1,
     THEN conjunct2, THEN conjunct2]
  have C: "state_after (bind (needs_any (run_cont 3) [0, 1, 2] three_futures)
            (\<lambda>_. resolve_each (run_cont 3) [(1, Resolve_done 7)])) 5 = Some Pending \<and>
   state_after (bind (needs_any (run_cont 3) [0, 1, 2] three_futures)
            (\<lambda>_. resolve_each (run_cont 3) [(2, Resolve_done 8)])) 5 = Some Pending \<and>
   state_after (bind (needs_any (run_cont 3) [0, 1, 2] three_futures)
            (\<lambda>_. resolve_each (run_cont 3) [(1, Resolve_done 7), (2, Resolve_done 8)])) 5 = Some Done \<and>
   state_after (bind (needs_any (run_cont 3) [0, 1, 2] three_futures)
            (\<lambda>_. resolve_each (run_cont 3) [(2, Resolve_done 8), (1, Resolve_done 7)])) 5 = Some Done \<and>
   state_after (bind (needs_any_vector (run_cont 1) [0, 1, 2] three_futures)
            (\<lambda>_. resolve_each (run_cont 1) [(1, Resolve_done 7)])) 3 = Some Done"
    by (rule mp[OF T]) (intro conjI fr ne)
  show ?thesis
    using fr nf C by blast
qed

end
